theory Spec2Isabelle
  imports Complex_Main
begin

section \<open>Data of the multiple-scattering solver\<close>

text \<open>
  The development follows \<^verbatim>\<open>Solver.cpp\<close> and the \<^verbatim>\<open>Scatterer\<close> header of OPTIMET,
  in the build where neither \<^verbatim>\<open>OPTIMET_MPI\<close> nor \<^verbatim>\<open>OPTIMET_BELOS\<close> is defined.
  \<^verbatim>\<open>t_complex\<close> and \<^verbatim>\<open>t_real\<close> (double precision in the source) are the
  complex and the real numbers: every statement below is about which entries are
  combined by which sums and products, not about rounding.
\<close>

type_synonym t_complex = complex
type_synonym t_real = real

text \<open>
  A dense Eigen matrix or vector: its dimensions and its coefficients. Only the
  coefficients inside the dimensions are storage of the program.
\<close>

record Matrix =
  rows :: nat
  cols :: nat
  coeff :: "nat \<Rightarrow> nat \<Rightarrow> t_complex"

record Vector =
  vsize :: nat
  vcoeff :: "nat \<Rightarrow> t_complex"

record Spherical =
  rrr :: t_real
  theta :: t_real
  phi :: t_real

record ElectroMagnetic =
  epsilon :: t_complex
  mu :: t_complex

text \<open>
  \<^verbatim>\<open>class Scatterer\<close>. \<^verbatim>\<open>nMax\<close> is an \<^verbatim>\<open>int\<close> that counts harmonics, a natural
  number here. \<^verbatim>\<open>sourceCoef\<close> is a raw pointer in the source; the record holds the
  buffer it points to, so two copies of a scatterer sharing one buffer are outside
  this model.
\<close>

record Scatterer =
  vR :: Spherical
  elmag :: ElectroMagnetic
  nMax :: nat
  radius :: t_real
  sourceCoef :: "t_complex list"

record Geometry =
  objects :: "Scatterer list"
  bground :: ElectroMagnetic

record Excitation =
  omega :: t_real
  waveK :: t_complex

record Result =
  scatter_coef :: Vector
  internal_coef :: Vector

text \<open>The two coefficient matrices of \<^verbatim>\<open>class Coupling\<close>.\<close>

record Coupling =
  diagonal :: "nat \<Rightarrow> nat \<Rightarrow> t_complex"
  offdiagonal :: "nat \<Rightarrow> nat \<Rightarrow> t_complex"

text \<open>
  What \<^verbatim>\<open>Solver.cpp\<close> throws, and the one thing it can do that C++ leaves
  undefined: a block, a segment or a raw pointer that reaches outside its matrix
  or vector.
\<close>

datatype error =
  SameHarmonics       \<comment> \<open>\<^verbatim>\<open>"All objects must have same number of harmonics"\<close>\<close>
  | InvalidContext    \<comment> \<open>\<^verbatim>\<open>"Scalapack context is invalid"\<close>\<close>
  | OutOfBounds

text \<open>
  \<^verbatim>\<open>class Solver\<close>. \<^verbatim>\<open>geometry\<close> is the value the pointer refers to. \<^verbatim>\<open>result_FF\<close>
  is the address held (\<open>None\<close> for \<^verbatim>\<open>nullptr\<close>): the source compares the pointers,
  not the results behind them.
\<close>

record Solver =
  geometry :: Geometry
  incWave :: Excitation
  solver_nMax :: nat
  result_FF :: "nat option"
  solverMethod :: int
  S :: Matrix
  Q :: Vector

text \<open>
  The collaborators that \<^verbatim>\<open>Solver.cpp\<close> calls and whose code lies in other files
  (\<^verbatim>\<open>Geometry\<close>, \<^verbatim>\<open>Excitation\<close>, \<^verbatim>\<open>Coupling\<close>, \<^verbatim>\<open>Scatterer::getTLocal\<close>, the subtraction
  of two \<^verbatim>\<open>Spherical\<close> positions, Eigen's factorisation, the Scalapack context), the
  constant \<^verbatim>\<open>O3DSolverIndirect\<close>, the results that a \<^verbatim>\<open>Result *\<close> can point to, and
  the contents of storage that has been allocated and not yet written. Every theorem
  holds for all of them. A collaborator that fills a buffer through a raw pointer
  gives the coefficients it writes; it writes \<open>2 * (max_flat nMax - 1)\<close> of them.
  \<open>derived_sources\<close> are the local sources that \<^verbatim>\<open>Geometry::setSourcesSingle\<close> derives
  for the scatterer at a position from first-harmonic internal coefficients.
\<close>

record env =
  O3DSolverIndirect :: int
  Scatterer_getTLocal :: "Scatterer \<Rightarrow> t_real \<Rightarrow> ElectroMagnetic \<Rightarrow> nat \<Rightarrow> nat \<Rightarrow> t_complex"
  Geometry_getTLocal :: "Geometry \<Rightarrow> t_real \<Rightarrow> nat \<Rightarrow> nat \<Rightarrow> nat \<Rightarrow> nat \<Rightarrow> t_complex"
  getIncLocal :: "Excitation \<Rightarrow> Spherical \<Rightarrow> nat \<Rightarrow> nat \<Rightarrow> t_complex"
  getSourceLocal :: "Geometry \<Rightarrow> nat \<Rightarrow> Excitation \<Rightarrow> nat \<Rightarrow> nat \<Rightarrow> t_complex"
  derived_sources :: "Geometry \<Rightarrow> Excitation \<Rightarrow> (nat \<Rightarrow> t_complex) \<Rightarrow> nat \<Rightarrow> nat \<Rightarrow> t_complex list"
  getIaux :: "Geometry \<Rightarrow> t_real \<Rightarrow> nat \<Rightarrow> nat \<Rightarrow> nat \<Rightarrow> t_complex"
  mkCoupling :: "Spherical \<Rightarrow> t_complex \<Rightarrow> nat \<Rightarrow> Coupling"
  minus_Spherical :: "Spherical \<Rightarrow> Spherical \<Rightarrow> Spherical"
  colPivHouseholderQr_solve :: "Matrix \<Rightarrow> Vector \<Rightarrow> nat \<Rightarrow> t_complex"
  context_is_valid :: bool
  deref :: "nat \<Rightarrow> Result"
  uninitialized :: "nat \<Rightarrow> nat \<Rightarrow> t_complex"

text \<open>
  Modelled from the spec: \<^verbatim>\<open>HarmonicsIterator::max_flat\<close> is not among the sources.
  The spec gives it as the number of pairs \<open>(n, m)\<close> with \<open>0 \<le> n \<le> nMax\<close>,
  \<open>nMax \<cdot> (nMax + 2) + 1\<close>.
\<close>

definition max_flat :: "nat \<Rightarrow> nat" where
  "max_flat n = n * (n + 2) + 1"

text \<open>
  Modelled from the spec: \<^verbatim>\<open>Geometry::scatterer_size\<close> is not among the sources.
  The spec gives the size of the system as \<open>2 \<cdot> B \<cdot> K\<close> for \<open>K\<close> scatterers with
  \<open>B = maxFlat(nMax) - 1\<close>: one block of \<open>2 \<cdot> B\<close> coefficients for each scatterer.
\<close>

definition scatterer_size :: "Geometry \<Rightarrow> nat" where
  "scatterer_size g = sum_list (map (\<lambda>s. 2 * (max_flat (nMax s) - 1)) (objects g))"

text \<open>
  Modelled from the spec: \<^verbatim>\<open>Geometry::setSourcesSingle\<close> is not among the sources.
  The spec has second-harmonic source population overwrite the source-coefficient
  buffer of every scatterer with the newly derived local sources, a scatterer being
  immutable otherwise.
\<close>

definition setSourcesSingle ::
  "env \<Rightarrow> Geometry \<Rightarrow> Excitation \<Rightarrow> (nat \<Rightarrow> t_complex) \<Rightarrow> nat \<Rightarrow> Geometry" where
  "setSourcesSingle e g w internalCoef_FF nM =
     g\<lparr>objects :=
         map (\<lambda>(j, s). s\<lparr>sourceCoef := derived_sources e g w internalCoef_FF nM j\<rparr>)
           (enumerate 0 (objects g))\<rparr>"

section \<open>The Eigen operations that the solver uses\<close>

definition Matrix_new :: "env \<Rightarrow> nat \<Rightarrow> nat \<Rightarrow> Matrix" where
  "Matrix_new e r c = \<lparr>rows = r, cols = c, coeff = uninitialized e\<rparr>"

definition Vector_new :: "env \<Rightarrow> nat \<Rightarrow> Vector" where
  "Vector_new e n = \<lparr>vsize = n, vcoeff = (\<lambda>k. uninitialized e k 0)\<rparr>"

definition Matrix_Zero :: "nat \<Rightarrow> nat \<Rightarrow> Matrix" where
  "Matrix_Zero r c = \<lparr>rows = r, cols = c, coeff = (\<lambda>i j. 0)\<rparr>"

definition Vector_Zero :: "nat \<Rightarrow> Vector" where
  "Vector_Zero n = \<lparr>vsize = n, vcoeff = (\<lambda>k. 0)\<rparr>"

definition Matrix_Identity :: "nat \<Rightarrow> nat \<Rightarrow> Matrix" where
  "Matrix_Identity r c = \<lparr>rows = r, cols = c, coeff = (\<lambda>i j. if i = j then 1 else 0)\<rparr>"

text \<open>\<^verbatim>\<open>resize\<close> keeps the coefficients only when the dimensions stay the same.\<close>

definition resize :: "env \<Rightarrow> Matrix \<Rightarrow> nat \<Rightarrow> nat \<Rightarrow> Matrix" where
  "resize e A r c = (if rows A = r \<and> cols A = c then A else Matrix_new e r c)"

definition vresize :: "env \<Rightarrow> Vector \<Rightarrow> nat \<Rightarrow> Vector" where
  "vresize e v n = (if vsize v = n then v else Vector_new e n)"

text \<open>The transpose of an \<open>n \<times> n\<close> matrix given by its coefficients.\<close>

definition mat_transpose :: "nat \<Rightarrow> (nat \<Rightarrow> nat \<Rightarrow> t_complex) \<Rightarrow> Matrix" where
  "mat_transpose n M = \<lparr>rows = n, cols = n, coeff = (\<lambda>i j. M j i)\<rparr>"

definition mat_uminus :: "Matrix \<Rightarrow> Matrix" where
  "mat_uminus A = A\<lparr>coeff := (\<lambda>i j. - coeff A i j)\<rparr>"

definition mat_mul :: "Matrix \<Rightarrow> Matrix \<Rightarrow> Matrix" where
  "mat_mul A B =
     \<lparr>rows = rows A, cols = cols B,
      coeff = (\<lambda>i j. sum_list (map (\<lambda>k. coeff A i k * coeff B k j) [0..<cols A]))\<rparr>"

definition mat_vec :: "Matrix \<Rightarrow> Vector \<Rightarrow> Vector" where
  "mat_vec A v =
     \<lparr>vsize = rows A,
      vcoeff = (\<lambda>i. sum_list (map (\<lambda>k. coeff A i k * vcoeff v k) [0..<cols A]))\<rparr>"

text \<open>\<^verbatim>\<open>A.block(x, y, r, c)\<close> read, and written where it lies inside \<open>A\<close>.\<close>

definition block :: "Matrix \<Rightarrow> nat \<Rightarrow> nat \<Rightarrow> nat \<Rightarrow> nat \<Rightarrow> Matrix" where
  "block A x y r c = \<lparr>rows = r, cols = c, coeff = (\<lambda>i j. coeff A (x + i) (y + j))\<rparr>"

definition set_block :: "Matrix \<Rightarrow> nat \<Rightarrow> nat \<Rightarrow> Matrix \<Rightarrow> Matrix" where
  "set_block A x y B =
     A\<lparr>coeff := (\<lambda>i j. if x \<le> i \<and> i < x + rows B \<and> y \<le> j \<and> j < y + cols B
                        then coeff B (i - x) (j - y) else coeff A i j)\<rparr>"

definition block_inside :: "Matrix \<Rightarrow> nat \<Rightarrow> nat \<Rightarrow> nat \<Rightarrow> nat \<Rightarrow> bool" where
  "block_inside A x y r c = (x + r \<le> rows A \<and> y + c \<le> cols A)"

definition segment :: "Vector \<Rightarrow> nat \<Rightarrow> nat \<Rightarrow> Vector" where
  "segment v i n = \<lparr>vsize = n, vcoeff = (\<lambda>k. vcoeff v (i + k))\<rparr>"

text \<open>
  Writing \<open>n\<close> coefficients \<open>f 0, \<dots>, f (n - 1)\<close> from position \<open>i\<close> on: an assignment
  to \<^verbatim>\<open>v.segment(i, n)\<close>, or a collaborator filling \<^verbatim>\<open>v.data() + i\<close>.
\<close>

definition write_at :: "Vector \<Rightarrow> nat \<Rightarrow> nat \<Rightarrow> (nat \<Rightarrow> t_complex) \<Rightarrow> Vector" where
  "write_at v i n f =
     v\<lparr>vcoeff := (\<lambda>k. if i \<le> k \<and> k < i + n then f (k - i) else vcoeff v k)\<rparr>"

definition cwise_mul :: "Vector \<Rightarrow> Vector \<Rightarrow> Vector" where
  "cwise_mul v w = v\<lparr>vcoeff := (\<lambda>k. vcoeff v k * vcoeff w k)\<rparr>"

section \<open>Assembly of the source vector and of the scattering matrix\<close>

text \<open>
  The loop \<^verbatim>\<open>for(auto const &scatterer : geometry.objects) if(scatterer.nMax != nMax) throw\<close>
  that opens \<^verbatim>\<open>preconditioned_scattering_matrix\<close>, \<^verbatim>\<open>source_vector\<close> and
  \<^verbatim>\<open>local_source_vector\<close>.
\<close>

fun check_nMax :: "nat \<Rightarrow> Scatterer list \<Rightarrow> error + unit" where
  "check_nMax n [] = Inr ()"
| "check_nMax n (scatterer # rest) =
     (if nMax scatterer \<noteq> n then Inl SameHarmonics else check_nMax n rest)"

text \<open>\<^verbatim>\<open>source_vector(first, last, incWave)\<close>: the range is the list of its scatterers.\<close>

fun source_vector_loop ::
  "env \<Rightarrow> Excitation \<Rightarrow> nat \<Rightarrow> nat \<Rightarrow> Scatterer list \<Rightarrow> nat \<Rightarrow> Vector \<Rightarrow> Vector" where
  "source_vector_loop e w nM flatMax [] i result = result"
| "source_vector_loop e w nM flatMax (first # rest) i result =
     source_vector_loop e w nM flatMax rest (i + 2 * flatMax)
       (write_at result i (2 * flatMax) (getIncLocal e w (vR first) nM))"

definition source_vector_range :: "env \<Rightarrow> Scatterer list \<Rightarrow> Excitation \<Rightarrow> Vector" where
  "source_vector_range e objs w =
     (case objs of
        [] \<Rightarrow> Vector_Zero 0
      | first # _ \<Rightarrow>
          (let nM = nMax first;
               flatMax = max_flat nM - 1
           in source_vector_loop e w nM flatMax objs 0
                (Vector_new e (2 * flatMax * length objs))))"

text \<open>\<^verbatim>\<open>source_vector(geometry, incWave)\<close>.\<close>

definition source_vector :: "env \<Rightarrow> Geometry \<Rightarrow> Excitation \<Rightarrow> error + Vector" where
  "source_vector e g w =
     (case objects g of
        [] \<Rightarrow> Inr (Vector_new e 0)
      | front # _ \<Rightarrow>
          (case check_nMax (nMax front) (objects g) of
             Inl err \<Rightarrow> Inl err
           | Inr _ \<Rightarrow> Inr (source_vector_range e (objects g) w)))"

text \<open>
  \<^verbatim>\<open>Scatterer::getTLocal(omega, bground)\<close>: a square matrix whose size follows the
  scatterer's own \<^verbatim>\<open>nMax\<close>.
\<close>

definition TLocal :: "env \<Rightarrow> Scatterer \<Rightarrow> t_real \<Rightarrow> ElectroMagnetic \<Rightarrow> Matrix" where
  "TLocal e s om bg =
     \<lparr>rows = 2 * (max_flat (nMax s) - 1), cols = 2 * (max_flat (nMax s) - 1),
      coeff = Scatterer_getTLocal e s om bg\<rparr>"

text \<open>
  \<^verbatim>\<open>preconditioned_scattering_matrix(first, end_first, second, end_second, bground, incWave)\<close>.
  The four iterators point into one vector \<open>objs\<close> and are positions in it;
  \<^verbatim>\<open>iteri == iterj\<close> compares positions. The inner loop walks the rows \<open>x\<close>, the
  outer loop the columns \<open>y\<close>; \<open>psm_body\<close> is the body of the inner loop.
\<close>

definition psm_body ::
  "env \<Rightarrow> Scatterer list \<Rightarrow> Excitation \<Rightarrow> nat \<Rightarrow> nat \<Rightarrow> Matrix \<Rightarrow> nat \<Rightarrow> nat \<Rightarrow>
   nat \<Rightarrow> nat \<Rightarrow> Matrix \<Rightarrow> Matrix" where
  "psm_body e objs w nM n factor iterj y iteri x result =
     (if iteri = iterj then set_block result x y (Matrix_Identity (2 * n) (2 * n))
      else
        (let AB = mkCoupling e (minus_Spherical e (vR (objs ! iteri)) (vR (objs ! iterj)))
                    (waveK w) nM;
             r1 = set_block result x y (mat_transpose n (diagonal AB));
             r2 = set_block r1 (x + n) (y + n) (mat_transpose n (diagonal AB));
             r3 = set_block r2 x (y + n) (mat_transpose n (offdiagonal AB));
             r4 = set_block r3 (x + n) y (mat_transpose n (offdiagonal AB))
         in set_block r4 x y (mat_mul (block r4 x y (2 * n) (2 * n)) factor)))"

fun psm_rows ::
  "env \<Rightarrow> Scatterer list \<Rightarrow> Excitation \<Rightarrow> nat \<Rightarrow> nat \<Rightarrow> Matrix \<Rightarrow> nat \<Rightarrow> nat \<Rightarrow>
   nat list \<Rightarrow> nat \<Rightarrow> Matrix \<Rightarrow> Matrix" where
  "psm_rows e objs w nM n factor iterj y [] x result = result"
| "psm_rows e objs w nM n factor iterj y (iteri # rest) x result =
     psm_rows e objs w nM n factor iterj y rest (x + 2 * n)
       (psm_body e objs w nM n factor iterj y iteri x result)"

fun psm_cols ::
  "env \<Rightarrow> Scatterer list \<Rightarrow> ElectroMagnetic \<Rightarrow> Excitation \<Rightarrow> nat \<Rightarrow> nat \<Rightarrow> nat list \<Rightarrow>
   nat list \<Rightarrow> nat \<Rightarrow> Matrix \<Rightarrow> Matrix" where
  "psm_cols e objs bg w nM n is [] y result = result"
| "psm_cols e objs bg w nM n is (iterj # rest) y result =
     psm_cols e objs bg w nM n is rest (y + 2 * n)
       (psm_rows e objs w nM n (mat_uminus (TLocal e (objs ! iterj) (omega w) bg))
          iterj y is 0 result)"

definition preconditioned_scattering_matrix_range ::
  "env \<Rightarrow> Scatterer list \<Rightarrow> nat \<Rightarrow> nat \<Rightarrow> nat \<Rightarrow> nat \<Rightarrow> ElectroMagnetic \<Rightarrow> Excitation \<Rightarrow> Matrix"
  where
  "preconditioned_scattering_matrix_range e objs first end_first second end_second bg w =
     (let nM = nMax (objs ! first);
          n = max_flat nM - 1
      in if first = end_first \<or> second = end_second
         then Matrix_Zero (2 * n * (end_first - first)) (2 * n * (end_second - second))
         else psm_cols e objs bg w nM n [first..<end_first] [second..<end_second] 0
                (Matrix_new e (2 * n * (end_first - first)) (2 * n * (end_second - second))))"

definition preconditioned_scattering_matrix_objects ::
  "env \<Rightarrow> Scatterer list \<Rightarrow> ElectroMagnetic \<Rightarrow> Excitation \<Rightarrow> Matrix" where
  "preconditioned_scattering_matrix_objects e objs bg w =
     preconditioned_scattering_matrix_range e objs 0 (length objs) 0 (length objs) bg w"

text \<open>\<^verbatim>\<open>preconditioned_scattering_matrix(geometry, incWave)\<close>.\<close>

definition preconditioned_scattering_matrix ::
  "env \<Rightarrow> Geometry \<Rightarrow> Excitation \<Rightarrow> error + Matrix" where
  "preconditioned_scattering_matrix e g w =
     (case objects g of
        [] \<Rightarrow> Inr (Matrix_new e 0 0)
      | front # _ \<Rightarrow>
          (case check_nMax (nMax front) (objects g) of
             Inl err \<Rightarrow> Inl err
           | Inr _ \<Rightarrow>
               Inr (preconditioned_scattering_matrix_objects e (objects g) (bground g) w)))"

text \<open>
  \<^verbatim>\<open>local_source_vector(geometry, incWave, input_coeffs)\<close>: the sources are set on a
  copy of the geometry and read back from the copy.
\<close>

fun local_source_loop ::
  "env \<Rightarrow> Geometry \<Rightarrow> Excitation \<Rightarrow> nat \<Rightarrow> nat \<Rightarrow> nat list \<Rightarrow> Vector \<Rightarrow> Vector" where
  "local_source_loop e copy_geometry w nM flatMax [] result = result"
| "local_source_loop e copy_geometry w nM flatMax (i # rest) result =
     local_source_loop e copy_geometry w nM flatMax rest
       (write_at result (i * 2 * flatMax) (2 * flatMax) (getSourceLocal e copy_geometry i w nM))"

definition local_source_vector ::
  "env \<Rightarrow> Geometry \<Rightarrow> Excitation \<Rightarrow> Vector \<Rightarrow> error + Vector" where
  "local_source_vector e g w input_coeffs =
     (case objects g of
        [] \<Rightarrow> Inr (Vector_new e 0)
      | front # _ \<Rightarrow>
          (case check_nMax (nMax front) (objects g) of
             Inl err \<Rightarrow> Inl err
           | Inr _ \<Rightarrow>
               (let nM = nMax front;
                    copy_geometry = setSourcesSingle e g w (vcoeff input_coeffs) nM;
                    flatMax = max_flat nM - 1;
                    result = Vector_new e (flatMax * 2 * length (objects copy_geometry))
                in Inr (local_source_loop e copy_geometry w nM flatMax
                          [0..<length (objects copy_geometry)] result))))"

section \<open>The solver\<close>

text \<open>
  The four corner assignments that build \<^verbatim>\<open>T_AB\<close> in \<^verbatim>\<open>Solver::populateDirect\<close>:
  \<^verbatim>\<open>topLeftCorner\<close>, \<^verbatim>\<open>bottomRightCorner\<close>, \<^verbatim>\<open>topRightCorner\<close>, \<^verbatim>\<open>bottomLeftCorner\<close>
  of a matrix of size \<open>2 * flatMax\<close>.
\<close>

definition T_AB_assign :: "Matrix \<Rightarrow> nat \<Rightarrow> Coupling \<Rightarrow> Matrix" where
  "T_AB_assign T_AB flatMax AB =
     (let t1 = set_block T_AB 0 0 (mat_transpose flatMax (diagonal AB));
          t2 = set_block t1 flatMax flatMax (mat_transpose flatMax (diagonal AB));
          t3 = set_block t2 0 flatMax (mat_transpose flatMax (offdiagonal AB))
      in set_block t3 flatMax 0 (mat_transpose flatMax (offdiagonal AB)))"

text \<open>
  \<^verbatim>\<open>Geometry::getTLocal(omega, i, nMax)\<close>: a square matrix of the size that the
  \<^verbatim>\<open>nMax\<close> handed over asks for.
\<close>

definition TLocal_at :: "env \<Rightarrow> Geometry \<Rightarrow> t_real \<Rightarrow> nat \<Rightarrow> nat \<Rightarrow> Matrix" where
  "TLocal_at e g om i nM =
     \<lparr>rows = 2 * (max_flat nM - 1), cols = 2 * (max_flat nM - 1),
      coeff = Geometry_getTLocal e g om i nM\<rparr>"

text \<open>
  The loops of \<^verbatim>\<open>Solver::populateDirect\<close>. \<^verbatim>\<open>T_AB\<close> lives across the iterations;
  a block of \<^verbatim>\<open>S\<close> or a segment of \<^verbatim>\<open>Q\<close> outside the size that \<^verbatim>\<open>populate\<close> gave
  them is \<open>OutOfBounds\<close>.
\<close>

fun populateDirect_cols ::
  "env \<Rightarrow> Geometry \<Rightarrow> Excitation \<Rightarrow> nat \<Rightarrow> nat \<Rightarrow> Matrix \<Rightarrow> nat \<Rightarrow> nat list \<Rightarrow>
   Matrix \<Rightarrow> Matrix \<Rightarrow> error + Matrix \<times> Matrix" where
  "populateDirect_cols e g w nM flatMax T i [] T_AB S0 = Inr (T_AB, S0)"
| "populateDirect_cols e g w nM flatMax T i (j # rest) T_AB S0 =
     (if \<not> block_inside S0 (i * 2 * flatMax) (j * 2 * flatMax) (2 * flatMax) (2 * flatMax)
      then Inl OutOfBounds
      else if i = j
      then populateDirect_cols e g w nM flatMax T i rest T_AB
             (set_block S0 (i * 2 * flatMax) (i * 2 * flatMax)
                (Matrix_Identity (2 * flatMax) (2 * flatMax)))
      else
        (let AB = mkCoupling e (minus_Spherical e (vR (objects g ! i)) (vR (objects g ! j)))
                    (waveK w) nM;
             T_AB' = T_AB_assign T_AB flatMax AB
         in populateDirect_cols e g w nM flatMax T i rest T_AB'
              (set_block S0 (i * 2 * flatMax) (j * 2 * flatMax) (mat_mul (mat_uminus T) T_AB'))))"

text \<open>
  \<^verbatim>\<open>Q_local\<close> of one iteration: the local sources in the second-harmonic case, the
  incoming excitation otherwise.
\<close>

definition fill_Q_local ::
  "env \<Rightarrow> Geometry \<Rightarrow> Excitation \<Rightarrow> nat \<Rightarrow> nat option \<Rightarrow> nat \<Rightarrow> nat \<Rightarrow> Vector" where
  "fill_Q_local e g w nM r flatMax i =
     write_at (Vector_new e (2 * flatMax)) 0 (2 * flatMax)
       (case r of
          Some _ \<Rightarrow> getSourceLocal e g i w nM
        | None \<Rightarrow> getIncLocal e w (vR (objects g ! i)) nM)"

fun populateDirect_rows ::
  "env \<Rightarrow> Geometry \<Rightarrow> Excitation \<Rightarrow> nat \<Rightarrow> nat option \<Rightarrow> nat \<Rightarrow> nat list \<Rightarrow>
   Matrix \<Rightarrow> Matrix \<Rightarrow> Vector \<Rightarrow> error + Matrix \<times> Vector" where
  "populateDirect_rows e g w nM r flatMax [] T_AB S0 Q0 = Inr (S0, Q0)"
| "populateDirect_rows e g w nM r flatMax (i # rest) T_AB S0 Q0 =
     (let T = TLocal_at e g (omega w) i nM;
          Q_local = fill_Q_local e g w nM r flatMax i
      in if \<not> i * 2 * flatMax + 2 * flatMax \<le> vsize Q0 then Inl OutOfBounds
         else
           (case populateDirect_cols e g w nM flatMax T i [0..<length (objects g)] T_AB S0 of
              Inl err \<Rightarrow> Inl err
            | Inr (T_AB', S') \<Rightarrow>
                populateDirect_rows e g w nM r flatMax rest T_AB' S'
                  (write_at Q0 (i * 2 * flatMax) (2 * flatMax) (vcoeff (mat_vec T Q_local)))))"

text \<open>
  \<^verbatim>\<open>Solver::populateDirect\<close>. With a first-harmonic result set, \<^verbatim>\<open>setSourcesSingle\<close>
  changes the geometry that the solver points to.
\<close>

definition populateDirect :: "env \<Rightarrow> Solver \<Rightarrow> error + Solver" where
  "populateDirect e s =
     (let flatMax = max_flat (solver_nMax s) - 1;
          T_AB = Matrix_new e (2 * flatMax) (2 * flatMax);
          g = (case result_FF s of
                 Some r \<Rightarrow> setSourcesSingle e (geometry s) (incWave s)
                             (vcoeff (internal_coef (deref e r))) (solver_nMax s)
               | None \<Rightarrow> geometry s)
      in case populateDirect_rows e g (incWave s) (solver_nMax s) (result_FF s) flatMax
                [0..<length (objects g)] T_AB (S s) (Q s) of
           Inl err \<Rightarrow> Inl err
         | Inr (S', Q') \<Rightarrow> Inr (s\<lparr>geometry := g, S := S', Q := Q'\<rparr>))"

text \<open>\<^verbatim>\<open>Solver::populateIndirect\<close>: \<^verbatim>\<open>Q\<close> first, then \<^verbatim>\<open>S\<close>.\<close>

definition populateIndirect :: "env \<Rightarrow> Solver \<Rightarrow> error + Solver" where
  "populateIndirect e s =
     (case (case result_FF s of
              Some r \<Rightarrow> local_source_vector e (geometry s) (incWave s) (internal_coef (deref e r))
            | None \<Rightarrow> source_vector e (geometry s) (incWave s)) of
        Inl err \<Rightarrow> Inl err
      | Inr Q' \<Rightarrow>
          (case preconditioned_scattering_matrix e (geometry s) (incWave s) of
             Inl err \<Rightarrow> Inl err
           | Inr S' \<Rightarrow> Inr (s\<lparr>Q := Q', S := S'\<rparr>)))"

text \<open>\<^verbatim>\<open>Solver::populate\<close>.\<close>

definition populate :: "env \<Rightarrow> Solver \<Rightarrow> error + Solver" where
  "populate e s =
     (let N = scatterer_size (geometry s);
          s1 = s\<lparr>S := resize e (S s) N N, Q := vresize e (Q s) N\<rparr>
      in if solverMethod s = O3DSolverIndirect e then populateIndirect e s1
         else populateDirect e s1)"

text \<open>\<^verbatim>\<open>Solver::SH(Result *r)\<close>.\<close>

definition SH :: "env \<Rightarrow> nat option \<Rightarrow> Solver \<Rightarrow> error + Solver" where
  "SH e r s = (if r \<noteq> result_FF s then populate e (s\<lparr>result_FF := r\<rparr>) else Inr s)"

text \<open>\<^verbatim>\<open>Solver::update(geometry_, incWave_, nMax_)\<close>.\<close>

definition update :: "env \<Rightarrow> Geometry \<Rightarrow> Excitation \<Rightarrow> nat \<Rightarrow> Solver \<Rightarrow> error + Solver" where
  "update e geometry' incWave' nMax' s =
     populate e
       (s\<lparr>geometry := geometry', incWave := incWave', solver_nMax := nMax', result_FF := None\<rparr>)"

text \<open>
  \<^verbatim>\<open>Solver::convertIndirect\<close>. Reading a segment of \<^verbatim>\<open>scattered\<close> past its end is
  \<open>OutOfBounds\<close>.
\<close>

fun convertIndirect_loop ::
  "env \<Rightarrow> Solver \<Rightarrow> nat \<Rightarrow> Vector \<Rightarrow> nat list \<Rightarrow> Vector \<Rightarrow> error + Vector" where
  "convertIndirect_loop e s N scattered [] result = Inr result"
| "convertIndirect_loop e s N scattered (i # rest) result =
     (if \<not> i * N + N \<le> vsize scattered then Inl OutOfBounds
      else convertIndirect_loop e s N scattered rest
             (write_at result (i * N) N
                (vcoeff (mat_vec (TLocal_at e (geometry s) (omega (incWave s)) i (solver_nMax s))
                           (segment scattered (i * N) N)))))"

definition convertIndirect :: "env \<Rightarrow> Solver \<Rightarrow> Vector \<Rightarrow> error + Vector" where
  "convertIndirect e s scattered =
     (let N = 2 * (max_flat (solver_nMax s) - 1);
          result = Vector_new e (N * length (objects (geometry s)))
      in convertIndirect_loop e s N scattered [0..<length (objects (geometry s))] result)"

text \<open>
  \<^verbatim>\<open>Solver::solveInternal\<close>. \<^verbatim>\<open>getIaux\<close> fills \<^verbatim>\<open>result.data() + j * N\<close> with \<open>N\<close>
  coefficients; past the end of \<^verbatim>\<open>result\<close> that is \<open>OutOfBounds\<close>.
\<close>

fun solveInternal_loop ::
  "env \<Rightarrow> Solver \<Rightarrow> nat \<Rightarrow> nat list \<Rightarrow> Vector \<Rightarrow> error + Vector" where
  "solveInternal_loop e s N [] result = Inr result"
| "solveInternal_loop e s N (j # rest) result =
     (if \<not> j * N + N \<le> vsize result then Inl OutOfBounds
      else solveInternal_loop e s N rest
             (write_at result (j * N) N
                (getIaux e (geometry s) (omega (incWave s)) j (solver_nMax s))))"

definition solveInternal :: "env \<Rightarrow> Solver \<Rightarrow> Vector \<Rightarrow> error + Vector" where
  "solveInternal e s scattered =
     (let N = 2 * (max_flat (solver_nMax s) - 1);
          result = Vector_new e (vsize scattered)
      in case solveInternal_loop e s N [0..<length (objects (geometry s))] result of
           Inl err \<Rightarrow> Inl err
         | Inr result' \<Rightarrow> Inr (cwise_mul result' scattered))"

text \<open>
  \<^verbatim>\<open>Solver::solveLinearSystem\<close>, the branch \<^verbatim>\<open>x = A.colPivHouseholderQr().solve(b)\<close>:
  the solution has one coefficient for each column of \<open>A\<close>.
\<close>

definition solveLinearSystem :: "env \<Rightarrow> Matrix \<Rightarrow> Vector \<Rightarrow> Vector" where
  "solveLinearSystem e A b = \<lparr>vsize = cols A, vcoeff = colPivHouseholderQr_solve e A b\<rparr>"

text \<open>\<^verbatim>\<open>Solver::solve(X_sca_, X_int_)\<close>: the two vectors it fills are its result.\<close>

definition solve :: "env \<Rightarrow> Solver \<Rightarrow> error + Vector \<times> Vector" where
  "solve e s =
     (if \<not> context_is_valid e then Inl InvalidContext
      else
        (let X = solveLinearSystem e (S s) (Q s)
         in case (if solverMethod s = O3DSolverIndirect e then convertIndirect e s X
                  else Inr X) of
              Inl err \<Rightarrow> Inl err
            | Inr X_sca \<Rightarrow>
                (case solveInternal e s X_sca of
                   Inl err \<Rightarrow> Inl err
                 | Inr X_int \<Rightarrow> Inr (X_sca, X_int))))"

section \<open>The blocks of the indirect system\<close>

text \<open>
  The \<open>2 \<times> 2\<close> coupling-block construction, as \<^verbatim>\<open>Solver::populateDirect\<close> builds it in
  \<^verbatim>\<open>T_AB\<close>: the transposed diagonal coupling on the two same-polarization quadrants,
  the transposed off-diagonal coupling on the two cross-polarization quadrants.
\<close>

definition coupling_block :: "env \<Rightarrow> nat \<Rightarrow> Coupling \<Rightarrow> Matrix" where
  "coupling_block e n AB = T_AB_assign (Matrix_new e (2 * n) (2 * n)) n AB"

text \<open>The coefficients of the four quadrants, written out.\<close>

definition quadrants :: "nat \<Rightarrow> Coupling \<Rightarrow> nat \<Rightarrow> nat \<Rightarrow> t_complex" where
  "quadrants n AB a k =
     (if a < n then (if k < n then diagonal AB k a else offdiagonal AB (k - n) a)
      else (if k < n then offdiagonal AB k (a - n) else diagonal AB (k - n) (a - n)))"

text \<open>
  What one pass of the inner loop of \<^verbatim>\<open>preconditioned_scattering_matrix\<close> leaves in
  the block of row position \<open>iteri\<close> and column position \<open>iterj\<close>.
\<close>

definition indirect_block ::
  "env \<Rightarrow> Scatterer list \<Rightarrow> Excitation \<Rightarrow> nat \<Rightarrow> nat \<Rightarrow> Matrix \<Rightarrow> nat \<Rightarrow> nat \<Rightarrow> Matrix" where
  "indirect_block e objs w nM n factor iteri iterj =
     (if iteri = iterj then Matrix_Identity (2 * n) (2 * n)
      else mat_mul (coupling_block e n
                      (mkCoupling e (minus_Spherical e (vR (objs ! iteri)) (vR (objs ! iterj)))
                         (waveK w) nM)) factor)"

text \<open>
  The block that the specification words for the indirect system: the product
  \<open>- T\<^sub>j \<cdot> C(i, j)\<close>, the local T-matrix on the left.
\<close>

definition specified_block :: "env \<Rightarrow> Geometry \<Rightarrow> Excitation \<Rightarrow> nat \<Rightarrow> nat \<Rightarrow> nat \<Rightarrow> Matrix" where
  "specified_block e g w nM i j =
     mat_mul (mat_uminus (TLocal e (objects g ! j) (omega w) (bground g)))
       (coupling_block e (max_flat nM - 1)
          (mkCoupling e (minus_Spherical e (vR (objects g ! i)) (vR (objects g ! j)))
             (waveK w) nM))"


section \<open>Concrete collaborators and geometries\<close>

text \<open>
  One choice of the collaborators: local T-matrices \<open>diag(1, 2, 3, \<dots>)\<close>, a coupling
  whose diagonal part is all ones and whose off-diagonal part is zero, constant
  incoming fields and sources, positions along one axis, and zeros in fresh storage.
\<close>

definition example_env :: env where
  "example_env =
     \<lparr>O3DSolverIndirect = 1,
      Scatterer_getTLocal = (\<lambda>s om bg i j. if i = j then of_nat (Suc i) else 0),
      Geometry_getTLocal = (\<lambda>g om k nM i j. if i = j then of_nat (Suc i) else 0),
      getIncLocal = (\<lambda>w v nM k. 1),
      getSourceLocal = (\<lambda>g i w nM k. 2),
      derived_sources = (\<lambda>g w c nM j. []),
      getIaux = (\<lambda>g om j nM a. 3),
      mkCoupling = (\<lambda>d k nM. \<lparr>diagonal = (\<lambda>i j. 1), offdiagonal = (\<lambda>i j. 0)\<rparr>),
      minus_Spherical = (\<lambda>a b. \<lparr>rrr = rrr a - rrr b, theta = theta a, phi = phi a\<rparr>),
      colPivHouseholderQr_solve = (\<lambda>A b k. 0),
      context_is_valid = True,
      deref = (\<lambda>a. \<lparr>scatter_coef = Vector_Zero 0, internal_coef = Vector_Zero 0\<rparr>),
      uninitialized = (\<lambda>i j. 0)\<rparr>"

definition example_scatterer :: "t_real \<Rightarrow> nat \<Rightarrow> Scatterer" where
  "example_scatterer z nM =
     \<lparr>vR = \<lparr>rrr = z, theta = 0, phi = 0\<rparr>, elmag = \<lparr>epsilon = 2, mu = 1\<rparr>,
      nMax = nM, radius = 1 / 2, sourceCoef = []\<rparr>"

definition example_bground :: ElectroMagnetic where
  "example_bground = \<lparr>epsilon = 1, mu = 1\<rparr>"

text \<open>Two scatterers of degree 1, two scatterers of degrees 1 and 2, and no scatterer.\<close>

definition example_geometry :: Geometry where
  "example_geometry =
     \<lparr>objects = [example_scatterer 0 1, example_scatterer 3 1], bground = example_bground\<rparr>"

definition mixed_geometry :: Geometry where
  "mixed_geometry =
     \<lparr>objects = [example_scatterer 0 1, example_scatterer 3 2], bground = example_bground\<rparr>"

definition empty_geometry :: Geometry where
  "empty_geometry = \<lparr>objects = [], bground = example_bground\<rparr>"

definition example_wave :: Excitation where
  "example_wave = \<lparr>omega = 1, waveK = 1\<rparr>"

text \<open>A solver of degree 1 that has not been populated.\<close>

definition example_solver :: "int \<Rightarrow> Geometry \<Rightarrow> nat option \<Rightarrow> Solver" where
  "example_solver method g r =
     \<lparr>geometry = g, incWave = example_wave, solver_nMax = 1, result_FF = r,
      solverMethod = method, S = Matrix_Zero 0 0, Q = Vector_Zero 0\<rparr>"

definition example_X :: Vector where
  "example_X = \<lparr>vsize = 12, vcoeff = (\<lambda>k. of_nat k)\<rparr>"

text \<open>
  A second choice, in which nothing about the sources is constant: the incoming
  field depends on the coefficient and on the centre of the scatterer, the derived
  local sources on the first-harmonic internal coefficients and on the scatterer,
  the local sources on the buffer of the scatterer, and the result behind every
  pointer has the internal coefficients \<open>5, 6, 7, \<dots>\<close>.
\<close>

definition varying_env :: env where
  "varying_env =
     example_env
       \<lparr>getIncLocal := (\<lambda>w v nM k. of_nat (Suc k) * complex_of_real (rrr v + 1)),
        getSourceLocal := (\<lambda>g i w nM k. of_nat k + sum_list (sourceCoef (objects g ! i))),
        derived_sources := (\<lambda>g w c nM j. [c 0, of_nat (Suc j)]),
        deref := (\<lambda>a. \<lparr>scatter_coef = Vector_Zero 0,
                       internal_coef = \<lparr>vsize = 12, vcoeff = (\<lambda>k. of_nat (k + 5))\<rparr>\<rparr>)\<rparr>"

section \<open>Blocks written by the loops of the indirect assembler\<close>

lemma coeff_set_block:
  "coeff (set_block A x y B) i j =
     (if x \<le> i \<and> i < x + rows B \<and> y \<le> j \<and> j < y + cols B
      then coeff B (i - x) (j - y) else coeff A i j)"
  by (simp add: set_block_def)

lemma set_block_outside:
  "\<not> (x \<le> i \<and> i < x + rows B \<and> y \<le> j \<and> j < y + cols B) \<Longrightarrow>
   coeff (set_block A x y B) i j = coeff A i j"
  by (auto simp: set_block_def)

lemma dims_set_block [simp]:
  "rows (set_block A x y B) = rows A" "cols (set_block A x y B) = cols A"
  by (simp_all add: set_block_def)

lemma dims_mat_transpose [simp]:
  "rows (mat_transpose n M) = n" "cols (mat_transpose n M) = n"
  "coeff (mat_transpose n M) i j = M j i"
  by (simp_all add: mat_transpose_def)

lemma corners_coeff:
  assumes "a < 2 * n" "k < 2 * n"
  shows "coeff (set_block (set_block (set_block (set_block result x y (mat_transpose n (diagonal AB)))
            (x + n) (y + n) (mat_transpose n (diagonal AB)))
            x (y + n) (mat_transpose n (offdiagonal AB)))
            (x + n) y (mat_transpose n (offdiagonal AB))) (x + a) (y + k) = quadrants n AB a k"
proof (cases "a < n")
  case True
  show ?thesis
  proof (cases "k < n")
    case True
    with \<open>a < n\<close> show ?thesis by (simp add: coeff_set_block quadrants_def)
  next
    case False
    with \<open>a < n\<close> assms show ?thesis by (simp add: coeff_set_block quadrants_def)
  qed
next
  case False
  show ?thesis
  proof (cases "k < n")
    case True
    with \<open>\<not> a < n\<close> assms show ?thesis by (simp add: coeff_set_block quadrants_def)
  next
    case False
    with \<open>\<not> a < n\<close> assms show ?thesis by (simp add: coeff_set_block quadrants_def)
  qed
qed

lemma T_AB_assign_coeff:
  assumes "a < 2 * n" "k < 2 * n"
  shows "coeff (T_AB_assign M n AB) a k = quadrants n AB a k"
  using corners_coeff[OF assms, of M 0 0 AB] by (simp add: T_AB_assign_def Let_def)

lemma T_AB_assign_dims [simp]:
  "rows (T_AB_assign M n AB) = rows M" "cols (T_AB_assign M n AB) = cols M"
  by (simp_all add: T_AB_assign_def Let_def)

lemma psm_body_dims [simp]:
  "rows (psm_body e objs w nM n factor iterj y iteri x result) = rows result"
  "cols (psm_body e objs w nM n factor iterj y iteri x result) = cols result"
  by (simp_all add: psm_body_def Let_def)

lemma psm_body_frame:
  assumes "cols factor = 2 * n"
    and "\<not> (x \<le> r \<and> r < x + 2 * n \<and> y \<le> c \<and> c < y + 2 * n)"
  shows "coeff (psm_body e objs w nM n factor iterj y iteri x result) r c = coeff result r c"
proof (cases "iteri = iterj")
  case True
  then show ?thesis using assms(2)
    by (auto simp: psm_body_def coeff_set_block Matrix_Identity_def)
next
  case False
  let ?AB = "mkCoupling e (minus_Spherical e (vR (objs ! iteri)) (vR (objs ! iterj))) (waveK w) nM"
  let ?r1 = "set_block result x y (mat_transpose n (diagonal ?AB))"
  let ?r2 = "set_block ?r1 (x + n) (y + n) (mat_transpose n (diagonal ?AB))"
  let ?r3 = "set_block ?r2 x (y + n) (mat_transpose n (offdiagonal ?AB))"
  let ?r4 = "set_block ?r3 (x + n) y (mat_transpose n (offdiagonal ?AB))"
  let ?P = "mat_mul (block ?r4 x y (2 * n) (2 * n)) factor"
  have body: "psm_body e objs w nM n factor iterj y iteri x result = set_block ?r4 x y ?P"
    using False by (simp add: psm_body_def Let_def)
  have "\<not> (x \<le> r \<and> r < x + rows ?P \<and> y \<le> c \<and> c < y + cols ?P)"
    using assms by (simp add: mat_mul_def block_def)
  then have "coeff (set_block ?r4 x y ?P) r c = coeff ?r4 r c"
    by (rule set_block_outside)
  also have "\<dots> = coeff ?r3 r c"
    by (rule set_block_outside) (use assms(2) in auto)
  also have "\<dots> = coeff ?r2 r c"
    by (rule set_block_outside) (use assms(2) in auto)
  also have "\<dots> = coeff ?r1 r c"
    by (rule set_block_outside) (use assms(2) in auto)
  also have "\<dots> = coeff result r c"
    by (rule set_block_outside) (use assms(2) in auto)
  finally show ?thesis unfolding body .
qed

lemma psm_body_block:
  assumes "cols factor = 2 * n" "a < 2 * n" "b < 2 * n"
  shows "coeff (psm_body e objs w nM n factor iterj y iteri x result) (x + a) (y + b) =
         coeff (indirect_block e objs w nM n factor iteri iterj) a b"
proof (cases "iteri = iterj")
  case True
  then show ?thesis using assms
    by (simp add: psm_body_def indirect_block_def coeff_set_block Matrix_Identity_def)
next
  case False
  let ?AB = "mkCoupling e (minus_Spherical e (vR (objs ! iteri)) (vR (objs ! iterj))) (waveK w) nM"
  let ?r4 = "set_block (set_block (set_block (set_block result x y (mat_transpose n (diagonal ?AB)))
            (x + n) (y + n) (mat_transpose n (diagonal ?AB)))
            x (y + n) (mat_transpose n (offdiagonal ?AB)))
            (x + n) y (mat_transpose n (offdiagonal ?AB))"
  have body: "psm_body e objs w nM n factor iterj y iteri x result =
              set_block ?r4 x y (mat_mul (block ?r4 x y (2 * n) (2 * n)) factor)"
    using False by (simp add: psm_body_def Let_def)
  have "coeff (psm_body e objs w nM n factor iterj y iteri x result) (x + a) (y + b) =
        coeff (mat_mul (block ?r4 x y (2 * n) (2 * n)) factor) a b"
    unfolding body using assms by (simp add: coeff_set_block mat_mul_def block_def)
  also have "\<dots> = sum_list (map (\<lambda>k. coeff ?r4 (x + a) (y + k) * coeff factor k b) [0..<2 * n])"
    by (simp add: mat_mul_def block_def)
  also have "\<dots> = sum_list (map (\<lambda>k. quadrants n ?AB a k * coeff factor k b) [0..<2 * n])"
    by (rule arg_cong[where f = sum_list], rule map_cong[OF refl])
       (simp add: corners_coeff[OF assms(2)])
  also have "\<dots> = sum_list (map (\<lambda>k. coeff (coupling_block e n ?AB) a k * coeff factor k b) [0..<2 * n])"
    by (rule arg_cong[where f = sum_list], rule map_cong[OF refl])
       (simp add: coupling_block_def T_AB_assign_coeff[OF assms(2)])
  also have "\<dots> = coeff (mat_mul (coupling_block e n ?AB) factor) a b"
    by (simp add: mat_mul_def coupling_block_def Matrix_new_def)
  finally show ?thesis using False by (simp add: indirect_block_def)
qed

lemma psm_rows_dims [simp]:
  "rows (psm_rows e objs w nM n factor iterj y is x result) = rows result"
  "cols (psm_rows e objs w nM n factor iterj y is x result) = cols result"
  by (induction "is" arbitrary: x result) simp_all

lemma psm_rows_frame:
  assumes "cols factor = 2 * n"
    and "\<not> (y \<le> c \<and> c < y + 2 * n) \<or> r < x \<or> x + length is * (2 * n) \<le> r"
  shows "coeff (psm_rows e objs w nM n factor iterj y is x result) r c = coeff result r c"
  using assms(2)
proof (induction "is" arbitrary: x result)
  case Nil
  then show ?case by simp
next
  case (Cons iteri rest)
  have out: "\<not> (x \<le> r \<and> r < x + 2 * n \<and> y \<le> c \<and> c < y + 2 * n)"
    using Cons.prems by auto
  have rec: "\<not> (y \<le> c \<and> c < y + 2 * n) \<or> r < x + 2 * n \<or> x + 2 * n + length rest * (2 * n) \<le> r"
    using Cons.prems by auto
  show ?case
    by (simp add: Cons.IH[OF rec] psm_body_frame[OF assms(1) out])
qed

lemma psm_rows_block:
  assumes "cols factor = 2 * n" "a < 2 * n" "b < 2 * n"
  shows "k < length is \<Longrightarrow>
         coeff (psm_rows e objs w nM n factor iterj y is x result) (x + k * (2 * n) + a) (y + b) =
         coeff (indirect_block e objs w nM n factor (is ! k) iterj) a b"
proof (induction "is" arbitrary: x result k)
  case Nil
  then show ?case by simp
next
  case (Cons iteri rest)
  show ?case
  proof (cases k)
    case 0
    have "coeff (psm_rows e objs w nM n factor iterj y (iteri # rest) x result) (x + a) (y + b) =
          coeff (psm_body e objs w nM n factor iterj y iteri x result) (x + a) (y + b)"
      using assms(2) by (simp add: psm_rows_frame[OF assms(1)])
    then show ?thesis using 0 by (simp add: psm_body_block[OF assms])
  next
    case (Suc k')
    then have "k' < length rest" using Cons.prems by simp
    from Cons.IH[OF this, of "x + 2 * n" "psm_body e objs w nM n factor iterj y iteri x result"]
    show ?thesis using Suc by (simp add: algebra_simps)
  qed
qed

lemma psm_cols_dims [simp]:
  "rows (psm_cols e objs bg w nM n is js y result) = rows result"
  "cols (psm_cols e objs bg w nM n is js y result) = cols result"
  by (induction js arbitrary: y result) simp_all

lemma cols_factor:
  "cols (mat_uminus (TLocal e s om bg)) = 2 * (max_flat (nMax s) - 1)"
  by (simp add: mat_uminus_def TLocal_def)

lemma psm_cols_frame:
  assumes "\<And>j. j \<in> set js \<Longrightarrow> nMax (objs ! j) = nM"
    and "n = max_flat nM - 1"
    and "c < y \<or> y + length js * (2 * n) \<le> c"
  shows "coeff (psm_cols e objs bg w nM n is js y result) r c = coeff result r c"
  using assms(1,3)
proof (induction js arbitrary: y result)
  case Nil
  then show ?case by simp
next
  case (Cons iterj rest)
  have fac: "cols (mat_uminus (TLocal e (objs ! iterj) (omega w) bg)) = 2 * n"
    using Cons.prems(1)[of iterj] assms(2) by (simp add: cols_factor)
  have rec: "c < y + 2 * n \<or> y + 2 * n + length rest * (2 * n) \<le> c"
    using Cons.prems(2) by auto
  have out: "\<not> (y \<le> c \<and> c < y + 2 * n) \<or> r < 0 \<or> 0 + length is * (2 * n) \<le> r"
    using Cons.prems(2) by auto
  show ?case
    using Cons.IH[OF _ rec] Cons.prems(1) psm_rows_frame[OF fac out] by simp
qed

lemma psm_cols_block:
  assumes "\<And>j. j \<in> set js \<Longrightarrow> nMax (objs ! j) = nM"
    and "n = max_flat nM - 1"
    and "k < length is" "a < 2 * n" "b < 2 * n"
  shows "l < length js \<Longrightarrow>
         coeff (psm_cols e objs bg w nM n is js y result) (k * (2 * n) + a) (y + l * (2 * n) + b) =
         coeff (indirect_block e objs w nM n (mat_uminus (TLocal e (objs ! (js ! l)) (omega w) bg))
                  (is ! k) (js ! l)) a b"
  using assms(1)
proof (induction js arbitrary: y result l)
  case Nil
  then show ?case by simp
next
  case (Cons iterj rest)
  have fac: "cols (mat_uminus (TLocal e (objs ! iterj) (omega w) bg)) = 2 * n"
    using Cons.prems(2)[of iterj] assms(2) by (simp add: cols_factor)
  have same: "\<And>j. j \<in> set rest \<Longrightarrow> nMax (objs ! j) = nM"
    using Cons.prems(2) by simp
  show ?case
  proof (cases l)
    case 0
    have "c < y + 2 * n \<or> y + 2 * n + length rest * (2 * n) \<le> c" if "c = y + b" for c
      using that assms(5) by simp
    then have "coeff (psm_cols e objs bg w nM n is (iterj # rest) y result) (k * (2 * n) + a) (y + b) =
          coeff (psm_rows e objs w nM n (mat_uminus (TLocal e (objs ! iterj) (omega w) bg))
                   iterj y is 0 result) (0 + k * (2 * n) + a) (y + b)"
      using psm_cols_frame[OF same assms(2)] by simp
    also have "\<dots> = coeff (indirect_block e objs w nM n
                              (mat_uminus (TLocal e (objs ! iterj) (omega w) bg)) (is ! k) iterj) a b"
      by (rule psm_rows_block[OF fac assms(4,5,3)])
    finally show ?thesis using 0 by simp
  next
    case (Suc l')
    then have "l' < length rest" using Cons.prems(1) by simp
    from Cons.IH[OF this same, of "y + 2 * n"]
    show ?thesis using Suc by (simp add: algebra_simps)
  qed
qed

lemma check_nMax_same:
  "(\<And>s. s \<in> set objs \<Longrightarrow> nMax s = n) \<Longrightarrow> check_nMax n objs = Inr ()"
  by (induction objs) simp_all

lemma check_nMax_differ:
  "s \<in> set objs \<Longrightarrow> nMax s \<noteq> n \<Longrightarrow> check_nMax n objs = Inl SameHarmonics"
  by (induction objs) auto

lemma psm_objects_blocks:
  assumes "\<And>s. s \<in> set objs \<Longrightarrow> nMax s = nM" and "n = max_flat nM - 1"
    and "i < length objs" "j < length objs" "a < 2 * n" "b < 2 * n"
  shows "coeff (preconditioned_scattering_matrix_objects e objs bg w)
           (i * (2 * n) + a) (j * (2 * n) + b) =
         coeff (indirect_block e objs w nM n (mat_uminus (TLocal e (objs ! j) (omega w) bg)) i j) a b"
proof -
  have ne: "0 \<noteq> length objs" "objs \<noteq> []" using assms(3) by auto
  have "objs ! 0 \<in> set objs" using ne by (cases objs) simp_all
  then have first: "nMax (objs ! 0) = nM" by (rule assms(1))
  have same: "nMax (objs ! j) = nM" if "j \<in> set [0..<length objs]" for j
  proof -
    have "objs ! j \<in> set objs" using that by (intro nth_mem) simp
    then show ?thesis by (rule assms(1))
  qed
  have "coeff (psm_cols e objs bg w nM n [0..<length objs] [0..<length objs] 0
                 (Matrix_new e (2 * n * length objs) (2 * n * length objs)))
              (i * (2 * n) + a) (0 + j * (2 * n) + b) =
        coeff (indirect_block e objs w nM n
                 (mat_uminus (TLocal e (objs ! ([0..<length objs] ! j)) (omega w) bg))
                 ([0..<length objs] ! i) ([0..<length objs] ! j)) a b"
    by (rule psm_cols_block[OF same assms(2) _ assms(5,6)]) (use assms(3,4) in simp_all)
  then show ?thesis
    using ne first assms(2,3,4)
    by (simp add: preconditioned_scattering_matrix_objects_def
          preconditioned_scattering_matrix_range_def Let_def)
qed

lemma psm_objects_dims:
  assumes "objs \<noteq> []" "n = max_flat (nMax (objs ! 0)) - 1"
  shows "rows (preconditioned_scattering_matrix_objects e objs bg w) = 2 * n * length objs"
    and "cols (preconditioned_scattering_matrix_objects e objs bg w) = 2 * n * length objs"
  using assms
  by (simp_all add: preconditioned_scattering_matrix_objects_def
        preconditioned_scattering_matrix_range_def Let_def Matrix_new_def)

lemma psm_geometry:
  assumes "\<And>s. s \<in> set (objects g) \<Longrightarrow> nMax s = nM"
  shows "preconditioned_scattering_matrix e g w =
         Inr (if objects g = [] then Matrix_new e 0 0
              else preconditioned_scattering_matrix_objects e (objects g) (bground g) w)"
proof (cases "objects g")
  case Nil
  then show ?thesis by (simp add: preconditioned_scattering_matrix_def)
next
  case (Cons front rest)
  have "check_nMax (nMax front) (objects g) = Inr ()"
    by (rule check_nMax_same) (use assms Cons in simp)
  then show ?thesis using Cons by (simp add: preconditioned_scattering_matrix_def)
qed

lemma coupling_block_coeff:
  "a < 2 * n \<Longrightarrow> k < 2 * n \<Longrightarrow> coeff (coupling_block e n AB) a k = quadrants n AB a k"
  by (simp add: coupling_block_def T_AB_assign_coeff)

lemma coupling_block_dims [simp]:
  "rows (coupling_block e n AB) = 2 * n" "cols (coupling_block e n AB) = 2 * n"
  by (simp_all add: coupling_block_def Matrix_new_def)

lemma example_same_nMax: "s \<in> set (objects example_geometry) \<Longrightarrow> nMax s = 1"
  by (auto simp: example_geometry_def example_scatterer_def)

lemma example_code_block:
  "coeff (mat_mul (coupling_block example_env 3 (mkCoupling example_env d k nM))
            (mat_uminus (TLocal example_env s om bg))) 0 (Suc 0) = - 2"
  by (simp add: mat_mul_def upt_rec coupling_block_coeff quadrants_def mat_uminus_def TLocal_def
        example_env_def)

lemma example_specified_block:
  "coeff (specified_block example_env example_geometry example_wave 1 0 1) 0 1 = - 1"
  by (simp add: specified_block_def mat_mul_def upt_rec coupling_block_coeff quadrants_def
        mat_uminus_def TLocal_def max_flat_def example_env_def example_geometry_def
        example_scatterer_def)

lemma example_sizes:
  "max_flat 1 - 1 = 3" "max_flat (Suc 0) - Suc 0 = 3" "length (objects example_geometry) = 2"
  by (simp_all add: max_flat_def example_geometry_def)

section \<open>The indirect system matrix, block by block\<close>

text \<open>
  Claim C1, as the code has it. When all scatterers of the geometry share one \<open>nMax\<close>,
  \<^verbatim>\<open>preconditioned_scattering_matrix\<close> returns a square matrix of \<open>K\<close> by \<open>K\<close> blocks of
  size \<open>2 \<cdot> (max_flat nMax - 1)\<close>. Every diagonal block is the identity. For \<open>i \<noteq> j\<close>,
  block \<open>(i, j)\<close> is the product \<open>C(i, j) \<cdot> (- T\<^sub>j)\<close>: the coupling block for the
  displacement from scatterer \<open>j\<close> to scatterer \<open>i\<close> on the left, the negated local
  T-matrix of scatterer \<open>j\<close> against the background on the right
  (\<^verbatim>\<open>result.block(x, y, 2 * n, 2 * n) *= factor\<close>).
\<close>

theorem preconditioned_scattering_matrix_blocks:
  assumes "\<forall>s \<in> set (objects g). nMax s = nM"
  shows "\<exists>M. preconditioned_scattering_matrix e g w = Inr M \<and>
           rows M = 2 * (max_flat nM - 1) * length (objects g) \<and>
           cols M = 2 * (max_flat nM - 1) * length (objects g) \<and>
           (\<forall>i < length (objects g). \<forall>j < length (objects g).
              \<forall>a < 2 * (max_flat nM - 1). \<forall>b < 2 * (max_flat nM - 1).
                coeff (block M (i * (2 * (max_flat nM - 1))) (j * (2 * (max_flat nM - 1)))
                         (2 * (max_flat nM - 1)) (2 * (max_flat nM - 1))) a b =
                (if i = j then coeff (Matrix_Identity (2 * (max_flat nM - 1)) (2 * (max_flat nM - 1))) a b
                 else coeff (mat_mul
                               (coupling_block e (max_flat nM - 1)
                                  (mkCoupling e
                                     (minus_Spherical e (vR (objects g ! i)) (vR (objects g ! j)))
                                     (waveK w) nM))
                               (mat_uminus (TLocal e (objects g ! j) (omega w) (bground g)))) a b))"
proof (cases "objects g = []")
  case True
  then show ?thesis by (simp add: preconditioned_scattering_matrix_def Matrix_new_def)
next
  case False
  let ?n = "max_flat nM - 1"
  let ?M = "preconditioned_scattering_matrix_objects e (objects g) (bground g) w"
  have same: "\<And>s. s \<in> set (objects g) \<Longrightarrow> nMax s = nM" using assms by simp
  have "objects g ! 0 \<in> set (objects g)" using False by (cases "objects g") simp_all
  then have first: "nMax (objects g ! 0) = nM" by (rule same)
  have run: "preconditioned_scattering_matrix e g w = Inr ?M"
    using psm_geometry[OF same] False by simp
  have dims: "rows ?M = 2 * ?n * length (objects g)" "cols ?M = 2 * ?n * length (objects g)"
    using psm_objects_dims[OF False, of ?n] first by simp_all
  have blk: "coeff (block ?M (i * (2 * ?n)) (j * (2 * ?n)) (2 * ?n) (2 * ?n)) a b =
             coeff (indirect_block e (objects g) w nM ?n
                      (mat_uminus (TLocal e (objects g ! j) (omega w) (bground g))) i j) a b"
    if "i < length (objects g)" "j < length (objects g)" "a < 2 * ?n" "b < 2 * ?n" for i j a b
    using psm_objects_blocks[OF same refl that] by (simp add: block_def)
  show ?thesis
    using run dims blk by (simp add: indirect_block_def)
qed

theorem preconditioned_scattering_matrix_blocks_witness:
  "\<exists>M. preconditioned_scattering_matrix example_env example_geometry example_wave = Inr M \<and>
     rows M = 12 \<and> cols M = 12 \<and>
     coeff (block M 0 6 6 6) 0 1 = - 2 \<and> coeff (block M 6 6 6 6) 2 2 = 1"
proof -
  have "\<forall>s \<in> set (objects example_geometry). nMax s = 1"
    using example_same_nMax by blast
  from preconditioned_scattering_matrix_blocks[OF this, of example_env example_wave]
  obtain M where
    run: "preconditioned_scattering_matrix example_env example_geometry example_wave = Inr M"
    and dims: "rows M = 2 * (max_flat 1 - 1) * length (objects example_geometry)"
      "cols M = 2 * (max_flat 1 - 1) * length (objects example_geometry)"
    and blk: "\<forall>i < length (objects example_geometry). \<forall>j < length (objects example_geometry).
            \<forall>a < 2 * (max_flat 1 - 1). \<forall>b < 2 * (max_flat 1 - 1).
            coeff (block M (i * (2 * (max_flat 1 - 1))) (j * (2 * (max_flat 1 - 1)))
                     (2 * (max_flat 1 - 1)) (2 * (max_flat 1 - 1))) a b =
            (if i = j then coeff (Matrix_Identity (2 * (max_flat 1 - 1)) (2 * (max_flat 1 - 1))) a b
             else coeff (mat_mul
                    (coupling_block example_env (max_flat 1 - 1)
                       (mkCoupling example_env
                          (minus_Spherical example_env (vR (objects example_geometry ! i))
                             (vR (objects example_geometry ! j)))
                          (waveK example_wave) 1))
                    (mat_uminus (TLocal example_env (objects example_geometry ! j) (omega example_wave)
                       (bground example_geometry)))) a b)"
    by blast
  from blk[rule_format, of 0 1 0 1] have "coeff (block M 0 6 6 6) 0 1 = - 2"
    by (simp add: example_sizes example_code_block)
  moreover from blk[rule_format, of 1 1 2 2] have "coeff (block M 6 6 6 6) 2 2 = 1"
    by (simp add: example_sizes Matrix_Identity_def)
  ultimately show ?thesis using run dims by (simp add: example_sizes)
qed

text \<open>
  The order of the product matters. With local T-matrices \<open>diag(1, \<dots>, 6)\<close> and a
  diagonal coupling of ones, the coefficient \<open>(0, 1)\<close> of block \<open>(0, 1)\<close> is \<open>- 2\<close>,
  where the product \<open>- T\<^sub>1 \<cdot> C(0, 1)\<close> has \<open>- 1\<close>.
\<close>

theorem indirect_block_order_counterexample:
  "\<not> isl (preconditioned_scattering_matrix example_env example_geometry example_wave) \<and>
   coeff (block (projr (preconditioned_scattering_matrix example_env example_geometry example_wave))
            0 6 6 6) 0 1 = - 2 \<and>
   coeff (specified_block example_env example_geometry example_wave 1 0 1) 0 1 = - 1 \<and>
   coeff (block (projr (preconditioned_scattering_matrix example_env example_geometry example_wave))
            0 6 6 6) 0 1 \<noteq>
   coeff (specified_block example_env example_geometry example_wave 1 0 1) 0 1"
proof -
  let ?M = "preconditioned_scattering_matrix_objects example_env (objects example_geometry)
              (bground example_geometry) example_wave"
  have run: "preconditioned_scattering_matrix example_env example_geometry example_wave = Inr ?M"
    using psm_geometry[of example_geometry 1 example_env example_wave] example_same_nMax
    by (simp add: example_geometry_def)
  have "coeff ?M (0 * (2 * 3) + 0) (1 * (2 * 3) + 1) =
        coeff (indirect_block example_env (objects example_geometry) example_wave 1 3
                 (mat_uminus (TLocal example_env (objects example_geometry ! 1) (omega example_wave)
                    (bground example_geometry))) 0 1) 0 1"
    by (rule psm_objects_blocks[OF example_same_nMax])
       (simp_all add: max_flat_def example_geometry_def)
  then have "coeff (block ?M 0 6 6 6) 0 1 = - 2"
    by (simp add: block_def indirect_block_def example_code_block)
  then show ?thesis using run example_specified_block by simp
qed

section \<open>Internal-field coefficients\<close>

lemma segment_index_unique:
  fixes i j a m k :: nat
  assumes "a < m" "j * m \<le> i * m + a" "i * m + a < j * m + m"
  shows "i = j"
proof -
  have "j * m < (i + 1) * m" using assms by (simp add: algebra_simps)
  then have "j < i + 1" by (rule mult_less_cancel2[THEN iffD1, THEN conjunct2])
  moreover have "i * m < (j + 1) * m" using assms by (simp add: algebra_simps)
  then have "i < j + 1" by (rule mult_less_cancel2[THEN iffD1, THEN conjunct2])
  ultimately show ?thesis by simp
qed

lemma solveInternal_loop_size:
  "solveInternal_loop e s N js result = Inr r' \<Longrightarrow> vsize r' = vsize result"
  by (induction js arbitrary: result) (auto simp: write_at_def split: if_splits)

lemma solveInternal_loop_returns:
  "(\<And>j. j \<in> set js \<Longrightarrow> j * N + N \<le> vsize result) \<Longrightarrow>
   \<exists>r'. solveInternal_loop e s N js result = Inr r'"
  by (induction js arbitrary: result) (auto simp: write_at_def)

lemma solveInternal_loop_frame:
  "solveInternal_loop e s N js result = Inr r' \<Longrightarrow>
   (\<And>j. j \<in> set js \<Longrightarrow> \<not> (j * N \<le> k \<and> k < j * N + N)) \<Longrightarrow>
   vcoeff r' k = vcoeff result k"
proof (induction js arbitrary: result)
  case Nil
  then show ?case by simp
next
  case (Cons j js)
  from Cons.prems(1) have
    run: "solveInternal_loop e s N js
            (write_at result (j * N) N (getIaux e (geometry s) (omega (incWave s)) j (solver_nMax s))) = Inr r'"
    by (simp split: if_splits)
  have "vcoeff r' k =
        vcoeff (write_at result (j * N) N (getIaux e (geometry s) (omega (incWave s)) j (solver_nMax s))) k"
    using Cons.IH[OF run] Cons.prems(2) by simp
  also have "\<dots> = vcoeff result k"
    using Cons.prems(2)[of j] by (auto simp: write_at_def)
  finally show ?case .
qed

lemma solveInternal_loop_block:
  "solveInternal_loop e s N js result = Inr r' \<Longrightarrow> distinct js \<Longrightarrow> j \<in> set js \<Longrightarrow> a < N \<Longrightarrow>
   vcoeff r' (j * N + a) = getIaux e (geometry s) (omega (incWave s)) j (solver_nMax s) a"
proof (induction js arbitrary: result)
  case Nil
  then show ?case by simp
next
  case (Cons j0 js)
  let ?w = "write_at result (j0 * N) N (getIaux e (geometry s) (omega (incWave s)) j0 (solver_nMax s))"
  from Cons.prems(1) have run: "solveInternal_loop e s N js ?w = Inr r'"
    by (simp split: if_splits)
  show ?case
  proof (cases "j = j0")
    case True
    have "\<And>j'. j' \<in> set js \<Longrightarrow> \<not> (j' * N \<le> j * N + a \<and> j * N + a < j' * N + N)"
      using segment_index_unique[OF Cons.prems(4)] Cons.prems(2) True by auto
    then have "vcoeff r' (j * N + a) = vcoeff ?w (j * N + a)"
      using solveInternal_loop_frame[OF run] by blast
    then show ?thesis using True Cons.prems(4) by (simp add: write_at_def)
  next
    case False
    then show ?thesis using Cons.IH[OF run] Cons.prems by simp
  qed
qed

text \<open>
  Claim C8. For a vector of scattered coefficients that holds a block of
  \<open>N = 2 \<cdot> (max_flat nMax - 1)\<close> coefficients for each of the \<open>K\<close> scatterers,
  \<^verbatim>\<open>Solver::solveInternal\<close> returns a vector of the same length, and coefficient \<open>a\<close> of
  its block \<open>j\<close> is coefficient \<open>a\<close> of the internal auxiliary operator of scatterer \<open>j\<close>
  times coefficient \<open>a\<close> of block \<open>j\<close> of the scattered vector: no other scatterer and
  no other block enters.
\<close>

theorem solveInternal_blocks:
  assumes "2 * (max_flat (solver_nMax s) - 1) * length (objects (geometry s)) \<le> vsize X_sca"
  shows "\<exists>X_int. solveInternal e s X_sca = Inr X_int \<and> vsize X_int = vsize X_sca \<and>
           (\<forall>j < length (objects (geometry s)). \<forall>a < 2 * (max_flat (solver_nMax s) - 1).
              vcoeff X_int (j * (2 * (max_flat (solver_nMax s) - 1)) + a) =
              getIaux e (geometry s) (omega (incWave s)) j (solver_nMax s) a *
              vcoeff X_sca (j * (2 * (max_flat (solver_nMax s) - 1)) + a))"
proof -
  let ?N = "2 * (max_flat (solver_nMax s) - 1)"
  let ?K = "length (objects (geometry s))"
  have inside: "j * ?N + ?N \<le> vsize (Vector_new e (vsize X_sca))" if "j \<in> set [0..<?K]" for j
  proof -
    from that have "Suc j \<le> ?K" by simp
    then have "Suc j * ?N \<le> ?K * ?N" by (rule mult_le_mono1)
    then show ?thesis using assms by (simp add: Vector_new_def mult.commute)
  qed
  obtain r' where run: "solveInternal_loop e s ?N [0..<?K] (Vector_new e (vsize X_sca)) = Inr r'"
    using solveInternal_loop_returns[of "[0..<?K]" ?N "Vector_new e (vsize X_sca)" e s] inside
    by blast
  have sz: "vsize r' = vsize X_sca"
    using solveInternal_loop_size[OF run] by (simp add: Vector_new_def)
  have blk: "vcoeff r' (j * ?N + a) = getIaux e (geometry s) (omega (incWave s)) j (solver_nMax s) a"
    if "j < ?K" "a < ?N" for j a
    using solveInternal_loop_block[OF run _ _ that(2), of j] that(1) by simp
  have "solveInternal e s X_sca = Inr (cwise_mul r' X_sca)"
    using run by (simp add: solveInternal_def)
  then show ?thesis using sz blk by (auto simp: cwise_mul_def)
qed

theorem solveInternal_blocks_witness:
  "\<exists>X_int. solveInternal example_env (example_solver 1 example_geometry None) example_X = Inr X_int \<and>
     vsize X_int = 12 \<and> vcoeff X_int 7 = 21"
proof -
  have "2 * (max_flat (solver_nMax (example_solver 1 example_geometry None)) - 1) *
          length (objects (geometry (example_solver 1 example_geometry None))) \<le> vsize example_X"
    by (simp add: example_solver_def example_geometry_def example_X_def max_flat_def)
  from solveInternal_blocks[OF this, of example_env]
  obtain X_int where
    run: "solveInternal example_env (example_solver 1 example_geometry None) example_X = Inr X_int"
    and sz: "vsize X_int = vsize example_X"
    and blk: "\<And>j a. j < 2 \<Longrightarrow> a < 6 \<Longrightarrow> vcoeff X_int (j * 6 + a) =
            getIaux example_env example_geometry 1 j 1 a * vcoeff example_X (j * 6 + a)"
    by (auto simp: example_solver_def example_geometry_def example_wave_def max_flat_def)
  from blk[of 1 1] have "vcoeff X_int 7 = 21"
    by (simp add: example_env_def example_X_def)
  with run sz show ?thesis by (simp add: example_X_def)
qed

section \<open>The loops of the direct assembler\<close>

lemma block_inside_set_block [simp]:
  "block_inside (set_block A x y B) x' y' r c = block_inside A x' y' r c"
  by (simp add: block_inside_def)

lemma populateDirect_cols_dims:
  "populateDirect_cols e g w nM flatMax T i js T_AB S0 = Inr (T_AB', S') \<Longrightarrow>
   rows S' = rows S0 \<and> cols S' = cols S0"
proof (induction js arbitrary: T_AB S0)
  case Nil
  then show ?case by simp
next
  case (Cons j rest)
  show ?case
  proof (cases "i = j")
    case True
    with Cons.prems have
      "populateDirect_cols e g w nM flatMax T i rest T_AB
         (set_block S0 (i * 2 * flatMax) (i * 2 * flatMax)
            (Matrix_Identity (2 * flatMax) (2 * flatMax))) = Inr (T_AB', S')"
      by (simp split: if_splits)
    from Cons.IH[OF this] show ?thesis by simp
  next
    case False
    with Cons.prems have
      "populateDirect_cols e g w nM flatMax T i rest
         (T_AB_assign T_AB flatMax
            (mkCoupling e (minus_Spherical e (vR (objects g ! i)) (vR (objects g ! j))) (waveK w) nM))
         (set_block S0 (i * 2 * flatMax) (j * 2 * flatMax)
            (mat_mul (mat_uminus T)
               (T_AB_assign T_AB flatMax
                  (mkCoupling e (minus_Spherical e (vR (objects g ! i)) (vR (objects g ! j)))
                     (waveK w) nM)))) = Inr (T_AB', S')"
      by (simp add: Let_def split: if_splits)
    from Cons.IH[OF this] show ?thesis by simp
  qed
qed

lemma populateDirect_cols_returns:
  "(\<And>j. j \<in> set js \<Longrightarrow>
      block_inside S0 (i * 2 * flatMax) (j * 2 * flatMax) (2 * flatMax) (2 * flatMax)) \<Longrightarrow>
   \<exists>T_AB' S'. populateDirect_cols e g w nM flatMax T i js T_AB S0 = Inr (T_AB', S')"
proof (induction js arbitrary: T_AB S0)
  case Nil
  then show ?case by simp
next
  case (Cons j rest)
  have here: "block_inside S0 (i * 2 * flatMax) (j * 2 * flatMax) (2 * flatMax) (2 * flatMax)"
    using Cons.prems[of j] by simp
  have rec: "\<exists>T_AB' S'. populateDirect_cols e g w nM flatMax T i rest T1 (set_block S0 x y B) =
               Inr (T_AB', S')" for T1 x y B
    by (rule Cons.IH) (use Cons.prems in simp)
  show ?case
  proof (cases "i = j")
    case True
    then have "j = i" by simp
    with here rec show ?thesis by (simp add: Let_def)
  next
    case False
    with here rec show ?thesis by (simp add: Let_def)
  qed
qed

lemma populateDirect_rows_dims:
  "populateDirect_rows e g w nM r flatMax is T_AB S0 Q0 = Inr (S', Q') \<Longrightarrow>
   rows S' = rows S0 \<and> cols S' = cols S0 \<and> vsize Q' = vsize Q0"
proof (induction "is" arbitrary: T_AB S0 Q0)
  case Nil
  then show ?case by simp
next
  case (Cons i rest)
  from Cons.prems obtain T1 S1 where
    cols: "populateDirect_cols e g w nM flatMax (TLocal_at e g (omega w) i nM) i
             [0..<length (objects g)] T_AB S0 = Inr (T1, S1)"
    and rec: "populateDirect_rows e g w nM r flatMax rest T1 S1
                (write_at Q0 (i * 2 * flatMax) (2 * flatMax)
                   (vcoeff (mat_vec (TLocal_at e g (omega w) i nM)
                              (fill_Q_local e g w nM r flatMax i)))) = Inr (S', Q')"
    by (auto simp: Let_def split: if_splits sum.splits)
  from Cons.IH[OF rec] populateDirect_cols_dims[OF cols]
  show ?case by (simp add: write_at_def)
qed

lemma populateDirect_rows_returns:
  assumes "\<And>i j. i \<in> set is \<Longrightarrow> j < length (objects g) \<Longrightarrow>
             block_inside S0 (i * 2 * flatMax) (j * 2 * flatMax) (2 * flatMax) (2 * flatMax)"
    and "\<And>i. i \<in> set is \<Longrightarrow> i * 2 * flatMax + 2 * flatMax \<le> vsize Q0"
  shows "\<exists>S' Q'. populateDirect_rows e g w nM r flatMax is T_AB S0 Q0 = Inr (S', Q')"
  using assms
proof (induction "is" arbitrary: T_AB S0 Q0)
  case Nil
  then show ?case by simp
next
  case (Cons i rest)
  have "\<And>j. j \<in> set [0..<length (objects g)] \<Longrightarrow>
          block_inside S0 (i * 2 * flatMax) (j * 2 * flatMax) (2 * flatMax) (2 * flatMax)"
    using Cons.prems(1)[of i] by simp
  from populateDirect_cols_returns[OF this]
  obtain T1 S1 where
    cols: "populateDirect_cols e g w nM flatMax (TLocal_at e g (omega w) i nM) i
             [0..<length (objects g)] T_AB S0 = Inr (T1, S1)"
    by blast
  have dims: "rows S1 = rows S0" "cols S1 = cols S0"
    using populateDirect_cols_dims[OF cols] by simp_all
  let ?Q1 = "write_at Q0 (i * 2 * flatMax) (2 * flatMax)
               (vcoeff (mat_vec (TLocal_at e g (omega w) i nM) (fill_Q_local e g w nM r flatMax i)))"
  have "\<exists>S' Q'. populateDirect_rows e g w nM r flatMax rest T1 S1 ?Q1 = Inr (S', Q')"
  proof (rule Cons.IH)
    fix i' j assume "i' \<in> set rest" "j < length (objects g)"
    then show "block_inside S1 (i' * 2 * flatMax) (j * 2 * flatMax) (2 * flatMax) (2 * flatMax)"
      using Cons.prems(1)[of i' j] dims by (simp add: block_inside_def)
  next
    fix i' assume "i' \<in> set rest"
    then show "i' * 2 * flatMax + 2 * flatMax \<le> vsize ?Q1"
      using Cons.prems(2)[of i'] by (simp add: write_at_def)
  qed
  then show ?case using cols Cons.prems(2)[of i] by (simp add: Let_def)
qed

lemma populateDirect_rows_frame:
  "populateDirect_rows e g w nM r flatMax is T_AB S0 Q0 = Inr (S', Q') \<Longrightarrow>
   (\<And>i. i \<in> set is \<Longrightarrow> \<not> (i * (2 * flatMax) \<le> k \<and> k < i * (2 * flatMax) + 2 * flatMax)) \<Longrightarrow>
   vcoeff Q' k = vcoeff Q0 k"
proof (induction "is" arbitrary: T_AB S0 Q0)
  case Nil
  then show ?case by simp
next
  case (Cons i rest)
  from Cons.prems(1) obtain T1 S1 where
    rec: "populateDirect_rows e g w nM r flatMax rest T1 S1
                (write_at Q0 (i * 2 * flatMax) (2 * flatMax)
                   (vcoeff (mat_vec (TLocal_at e g (omega w) i nM)
                              (fill_Q_local e g w nM r flatMax i)))) = Inr (S', Q')"
    by (auto simp: Let_def split: if_splits sum.splits)
  have "vcoeff Q' k = vcoeff (write_at Q0 (i * 2 * flatMax) (2 * flatMax)
                   (vcoeff (mat_vec (TLocal_at e g (omega w) i nM)
                              (fill_Q_local e g w nM r flatMax i)))) k"
    using Cons.IH[OF rec] Cons.prems(2) by simp
  also have "\<dots> = vcoeff Q0 k"
    using Cons.prems(2)[of i] by (auto simp: write_at_def mult.assoc)
  finally show ?case .
qed

lemma populateDirect_rows_segment:
  "populateDirect_rows e g w nM r flatMax is T_AB S0 Q0 = Inr (S', Q') \<Longrightarrow> distinct is \<Longrightarrow>
   i \<in> set is \<Longrightarrow> a < 2 * flatMax \<Longrightarrow>
   vcoeff Q' (i * (2 * flatMax) + a) =
   vcoeff (mat_vec (TLocal_at e g (omega w) i nM) (fill_Q_local e g w nM r flatMax i)) a"
proof (induction "is" arbitrary: T_AB S0 Q0)
  case Nil
  then show ?case by simp
next
  case (Cons i0 rest)
  let ?Q1 = "write_at Q0 (i0 * 2 * flatMax) (2 * flatMax)
               (vcoeff (mat_vec (TLocal_at e g (omega w) i0 nM) (fill_Q_local e g w nM r flatMax i0)))"
  from Cons.prems(1) obtain T1 S1 where
    rec: "populateDirect_rows e g w nM r flatMax rest T1 S1 ?Q1 = Inr (S', Q')"
    by (auto simp: Let_def split: if_splits sum.splits)
  show ?case
  proof (cases "i = i0")
    case True
    have "\<And>i'. i' \<in> set rest \<Longrightarrow>
            \<not> (i' * (2 * flatMax) \<le> i * (2 * flatMax) + a \<and>
               i * (2 * flatMax) + a < i' * (2 * flatMax) + 2 * flatMax)"
      using segment_index_unique[OF Cons.prems(4)] Cons.prems(2) True by auto
    then have "vcoeff Q' (i * (2 * flatMax) + a) = vcoeff ?Q1 (i * (2 * flatMax) + a)"
      using populateDirect_rows_frame[OF rec] by blast
    then show ?thesis using True Cons.prems(4) by (simp add: write_at_def mult.assoc)
  next
    case False
    then show ?thesis using Cons.IH[OF rec] Cons.prems by simp
  qed
qed

section \<open>What \<^verbatim>\<open>populate\<close> leaves in the solver\<close>

lemma mat_vec_fill_Q_local:
  assumes "f = max_flat nM - 1"
  shows "vcoeff (mat_vec (TLocal_at e g om i nM) (fill_Q_local e g w nM r f i)) a =
   vcoeff (mat_vec (TLocal_at e g om i nM)
             \<lparr>vsize = 2 * f,
              vcoeff = (case r of Some _ \<Rightarrow> getSourceLocal e g i w nM
                        | None \<Rightarrow> getIncLocal e w (vR (objects g ! i)) nM)\<rparr>) a"
  unfolding mat_vec_def assms
  by (simp, rule arg_cong[where f = sum_list], rule map_cong[OF refl])
     (simp add: TLocal_at_def fill_Q_local_def write_at_def)

lemma populateDirect_Inr:
  assumes "populateDirect e s = Inr s'"
    and "g' = (case result_FF s of
                 Some r \<Rightarrow> setSourcesSingle e (geometry s) (incWave s)
                             (vcoeff (internal_coef (deref e r))) (solver_nMax s)
               | None \<Rightarrow> geometry s)"
    and "f = max_flat (solver_nMax s) - 1"
  shows "\<exists>S' Q'. populateDirect_rows e g' (incWave s) (solver_nMax s) (result_FF s) f
            [0..<length (objects g')] (Matrix_new e (2 * f) (2 * f)) (S s) (Q s) = Inr (S', Q') \<and>
          s' = s\<lparr>geometry := g', S := S', Q := Q'\<rparr>"
  using assms(1) unfolding assms(2,3)
  by (auto simp: populateDirect_def Let_def split: sum.splits)

lemma populateIndirect_Inr:
  assumes "populateIndirect e s = Inr s'"
    and "src = (case result_FF s of
              Some r \<Rightarrow> local_source_vector e (geometry s) (incWave s) (internal_coef (deref e r))
            | None \<Rightarrow> source_vector e (geometry s) (incWave s))"
  shows "\<exists>S' Q'. src = Inr Q' \<and>
           preconditioned_scattering_matrix e (geometry s) (incWave s) = Inr S' \<and>
           s' = s\<lparr>Q := Q', S := S'\<rparr>"
  using assms(1) unfolding assms(2)
  by (auto simp: populateIndirect_def split: sum.splits)

lemma populate_keeps:
  assumes "populate e s = Inr s'"
  shows "result_FF s' = result_FF s" "incWave s' = incWave s" "solver_nMax s' = solver_nMax s"
    "solverMethod s' = solverMethod s"
  using assms
  by (auto simp: populate_def Let_def split: if_splits
           dest!: populateDirect_Inr[OF _ refl refl] populateIndirect_Inr[OF _ refl])

lemma populate_indirect:
  assumes "solverMethod s = O3DSolverIndirect e" "populate e s = Inr s'"
  shows "geometry s' = geometry s"
    and "(case result_FF s of
            Some r \<Rightarrow> local_source_vector e (geometry s) (incWave s) (internal_coef (deref e r))
          | None \<Rightarrow> source_vector e (geometry s) (incWave s)) = Inr (Q s')"
    and "preconditioned_scattering_matrix e (geometry s) (incWave s) = Inr (S s')"
proof -
  let ?s1 = "s\<lparr>S := resize e (S s) (scatterer_size (geometry s)) (scatterer_size (geometry s)),
               Q := vresize e (Q s) (scatterer_size (geometry s))\<rparr>"
  let ?src = "case result_FF s of
            Some r \<Rightarrow> local_source_vector e (geometry s) (incWave s) (internal_coef (deref e r))
          | None \<Rightarrow> source_vector e (geometry s) (incWave s)"
  have run: "populateIndirect e ?s1 = Inr s'"
    using assms by (simp add: populate_def Let_def)
  have src: "?src = (case result_FF ?s1 of
            Some r \<Rightarrow> local_source_vector e (geometry ?s1) (incWave ?s1) (internal_coef (deref e r))
          | None \<Rightarrow> source_vector e (geometry ?s1) (incWave ?s1))"
    by (cases "result_FF s") simp_all
  from populateIndirect_Inr[OF run src] obtain S' Q' where
    "?src = Inr Q'" "preconditioned_scattering_matrix e (geometry s) (incWave s) = Inr S'"
    "s' = ?s1\<lparr>Q := Q', S := S'\<rparr>"
    by auto
  then show "geometry s' = geometry s" "?src = Inr (Q s')"
    "preconditioned_scattering_matrix e (geometry s) (incWave s) = Inr (S s')"
    by simp_all
qed

lemma populate_direct:
  assumes "solverMethod s \<noteq> O3DSolverIndirect e" "populate e s = Inr s'"
    and "g' = (case result_FF s of
               Some r \<Rightarrow> setSourcesSingle e (geometry s) (incWave s)
                           (vcoeff (internal_coef (deref e r))) (solver_nMax s)
             | None \<Rightarrow> geometry s)"
    and "f = max_flat (solver_nMax s) - 1"
  shows "geometry s' = g'"
    and "i < length (objects g') \<Longrightarrow> a < 2 * f \<Longrightarrow>
         vcoeff (segment (Q s') (i * (2 * f)) (2 * f)) a =
         vcoeff (mat_vec (TLocal_at e g' (omega (incWave s)) i (solver_nMax s))
                   \<lparr>vsize = 2 * f,
                    vcoeff = (case result_FF s of
                                Some _ \<Rightarrow> getSourceLocal e g' i (incWave s) (solver_nMax s)
                              | None \<Rightarrow> getIncLocal e (incWave s) (vR (objects g' ! i))
                                          (solver_nMax s))\<rparr>) a"
proof -
  let ?s1 = "s\<lparr>S := resize e (S s) (scatterer_size (geometry s)) (scatterer_size (geometry s)),
               Q := vresize e (Q s) (scatterer_size (geometry s))\<rparr>"
  have run1: "populateDirect e ?s1 = Inr s'"
    using assms(1,2) by (simp add: populate_def Let_def)
  have g1: "g' = (case result_FF ?s1 of
               Some r \<Rightarrow> setSourcesSingle e (geometry ?s1) (incWave ?s1)
                           (vcoeff (internal_coef (deref e r))) (solver_nMax ?s1)
             | None \<Rightarrow> geometry ?s1)"
    unfolding assms(3) by (cases "result_FF s") simp_all
  have f1: "f = max_flat (solver_nMax ?s1) - 1"
    using assms(4) by simp
  from populateDirect_Inr[OF run1 g1 f1] obtain S' Q' where
    run: "populateDirect_rows e g' (incWave s) (solver_nMax s) (result_FF s) f
            [0..<length (objects g')]
            (Matrix_new e (2 * f) (2 * f)) (S ?s1) (Q ?s1) = Inr (S', Q')"
    and s': "s' = ?s1\<lparr>geometry := g', S := S', Q := Q'\<rparr>"
    by auto
  show "geometry s' = g'" using s' by simp
  assume "i < length (objects g')" "a < 2 * f"
  then have "vcoeff Q' (i * (2 * f) + a) =
        vcoeff (mat_vec (TLocal_at e g' (omega (incWave s)) i (solver_nMax s))
                  (fill_Q_local e g' (incWave s) (solver_nMax s) (result_FF s) f i)) a"
    using populateDirect_rows_segment[OF run] by simp
  then show "vcoeff (segment (Q s') (i * (2 * f)) (2 * f)) a =
         vcoeff (mat_vec (TLocal_at e g' (omega (incWave s)) i (solver_nMax s))
                   \<lparr>vsize = 2 * f,
                    vcoeff = (case result_FF s of
                                Some _ \<Rightarrow> getSourceLocal e g' i (incWave s) (solver_nMax s)
                              | None \<Rightarrow> getIncLocal e (incWave s) (vR (objects g' ! i))
                                          (solver_nMax s))\<rparr>) a"
    using s' by (simp add: segment_def mat_vec_fill_Q_local[OF assms(4)])
qed

lemma resize_dims [simp]:
  "rows (resize e A r c) = r" "cols (resize e A r c) = c" "vsize (vresize e v n) = n"
  by (simp_all add: resize_def vresize_def Matrix_new_def Vector_new_def)

lemma length_setSourcesSingle [simp]:
  "length (objects (setSourcesSingle e g w c nM)) = length (objects g)"
  by (simp add: setSourcesSingle_def)

lemma source_vector_same:
  assumes "\<And>x. x \<in> set (objects g) \<Longrightarrow> nMax x = nM"
  shows "\<exists>q. source_vector e g w = Inr q"
proof (cases "objects g")
  case Nil
  then show ?thesis by (simp add: source_vector_def)
next
  case (Cons front rest)
  have "check_nMax (nMax front) (objects g) = Inr ()"
    by (rule check_nMax_same) (use assms Cons in simp)
  then show ?thesis using Cons by (simp add: source_vector_def)
qed

lemma local_source_vector_same:
  assumes "\<And>x. x \<in> set (objects g) \<Longrightarrow> nMax x = nM"
  shows "\<exists>q. local_source_vector e g w c = Inr q"
proof (cases "objects g")
  case Nil
  then show ?thesis by (simp add: local_source_vector_def)
next
  case (Cons front rest)
  have "check_nMax (nMax front) (objects g) = Inr ()"
    by (rule check_nMax_same) (use assms Cons in simp)
  then show ?thesis using Cons by (simp add: local_source_vector_def Let_def)
qed

lemma populate_indirect_returns:
  assumes "solverMethod s = O3DSolverIndirect e"
    and "\<And>x. x \<in> set (objects (geometry s)) \<Longrightarrow> nMax x = nM"
  shows "\<exists>s'. populate e s = Inr s'"
proof -
  obtain q1 where q1: "source_vector e (geometry s) (incWave s) = Inr q1"
    using source_vector_same[OF assms(2)] by blast
  have q2: "\<exists>q. local_source_vector e (geometry s) (incWave s) c = Inr q" for c
    using local_source_vector_same[OF assms(2)] by blast
  have m: "\<exists>M. preconditioned_scattering_matrix e (geometry s) (incWave s) = Inr M"
    using psm_geometry[OF assms(2)] by blast
  show ?thesis
  proof (cases "result_FF s")
    case None
    then show ?thesis using assms(1) q1 m
      by (auto simp: populate_def populateIndirect_def Let_def)
  next
    case (Some a)
    then show ?thesis using assms(1) q2[of "internal_coef (deref e a)"] m
      by (auto simp: populate_def populateIndirect_def Let_def)
  qed
qed

lemma block_fits:
  fixes i K m N :: nat
  assumes "i < K" "K * m \<le> N"
  shows "i * m + m \<le> N"
proof -
  from assms(1) have "Suc i \<le> K" by simp
  then have "Suc i * m \<le> K * m" by (rule mult_le_mono1)
  then show ?thesis using assms(2) by simp
qed

lemma populate_direct_returns:
  assumes "solverMethod s \<noteq> O3DSolverIndirect e"
    and "length (objects (geometry s)) * (2 * (max_flat (solver_nMax s) - 1)) \<le>
         scatterer_size (geometry s)"
  shows "\<exists>s'. populate e s = Inr s'"
proof -
  let ?N = "scatterer_size (geometry s)"
  let ?f = "max_flat (solver_nMax s) - 1"
  let ?K = "length (objects (geometry s))"
  let ?g = "case result_FF s of
               Some r \<Rightarrow> setSourcesSingle e (geometry s) (incWave s)
                           (vcoeff (internal_coef (deref e r))) (solver_nMax s)
             | None \<Rightarrow> geometry s"
  have K: "length (objects ?g) = ?K" by (cases "result_FF s") simp_all
  have fit: "i * 2 * ?f + 2 * ?f \<le> ?N" if "i < ?K" for i
    using block_fits[OF that assms(2)] by (simp add: mult.assoc)
  have "\<exists>S' Q'. populateDirect_rows e ?g (incWave s) (solver_nMax s) (result_FF s) ?f
            [0..<length (objects ?g)] (Matrix_new e (2 * ?f) (2 * ?f))
            (resize e (S s) ?N ?N) (vresize e (Q s) ?N) = Inr (S', Q')"
    by (rule populateDirect_rows_returns) (use fit K in \<open>simp_all add: block_inside_def\<close>)
  then show ?thesis using assms(1)
    by (cases "result_FF s") (auto simp: populate_def populateDirect_def Let_def)
qed

lemma differing_nMax:
  assumes "a \<in> set objs" "b \<in> set objs" "nMax a \<noteq> nMax b"
  shows "check_nMax n objs = Inl SameHarmonics"
proof (cases "nMax a = n")
  case True
  then have "nMax b \<noteq> n" using assms(3) by simp
  with assms(2) show ?thesis by (rule check_nMax_differ)
next
  case False
  with assms(1) show ?thesis by (rule check_nMax_differ)
qed

section \<open>Scatterers of different degrees\<close>

text \<open>
  In the indirect formulation two scatterers of different \<^verbatim>\<open>nMax\<close> stop the
  assembly: the source vector, the second-harmonic source vector and the matrix
  each raise \<^verbatim>\<open>"All objects must have same number of harmonics"\<close>, and so does
  \<^verbatim>\<open>populate\<close>, which returns no solver.
\<close>

lemma mixed_degrees_indirect:
  assumes "a \<in> set (objects (geometry s))" "b \<in> set (objects (geometry s))"
    and "nMax a \<noteq> nMax b"
  shows "source_vector e (geometry s) w = Inl SameHarmonics \<and>
         local_source_vector e (geometry s) w c = Inl SameHarmonics \<and>
         preconditioned_scattering_matrix e (geometry s) w = Inl SameHarmonics \<and>
         (solverMethod s = O3DSolverIndirect e \<longrightarrow> populate e s = Inl SameHarmonics)"
proof -
  obtain front rest where objs: "objects (geometry s) = front # rest"
    using assms(1) by (cases "objects (geometry s)") auto
  have chk: "check_nMax (nMax front) (objects (geometry s)) = Inl SameHarmonics"
    by (rule differing_nMax[OF assms])
  have sv: "source_vector e (geometry s) w = Inl SameHarmonics" for w
    using objs chk by (simp add: source_vector_def)
  have lsv: "local_source_vector e (geometry s) w c = Inl SameHarmonics" for w c
    using objs chk by (simp add: local_source_vector_def)
  have psm: "preconditioned_scattering_matrix e (geometry s) w = Inl SameHarmonics"
    using objs chk by (simp add: preconditioned_scattering_matrix_def)
  have "populate e s = Inl SameHarmonics" if "solverMethod s = O3DSolverIndirect e"
    using that sv lsv
    by (cases "result_FF s") (simp_all add: populate_def populateIndirect_def Let_def)
  then show ?thesis using sv lsv psm by blast
qed

lemma mixed_geometry_objects:
  "objects mixed_geometry = [example_scatterer 0 1, example_scatterer 3 2]"
  "geometry (example_solver m g r) = g"
  by (simp_all add: mixed_geometry_def example_solver_def)

lemma mixed_degrees_indirect_example:
  "source_vector example_env mixed_geometry example_wave = Inl SameHarmonics \<and>
   local_source_vector example_env mixed_geometry example_wave example_X = Inl SameHarmonics \<and>
   preconditioned_scattering_matrix example_env mixed_geometry example_wave = Inl SameHarmonics \<and>
   populate example_env (example_solver 1 mixed_geometry None) = Inl SameHarmonics"
  using mixed_degrees_indirect[of "example_scatterer 0 1" "example_solver 1 mixed_geometry None"
          "example_scatterer 3 2" example_env example_wave example_X]
  by (simp add: mixed_geometry_objects example_scatterer_def)
     (simp add: example_solver_def example_env_def)

lemma populate_direct_dims:
  assumes "solverMethod s \<noteq> O3DSolverIndirect e" "populate e s = Inr s'"
  shows "rows (S s') = scatterer_size (geometry s)" "cols (S s') = scatterer_size (geometry s)"
    "vsize (Q s') = scatterer_size (geometry s)"
proof -
  let ?s1 = "s\<lparr>S := resize e (S s) (scatterer_size (geometry s)) (scatterer_size (geometry s)),
               Q := vresize e (Q s) (scatterer_size (geometry s))\<rparr>"
  have "populateDirect e ?s1 = Inr s'"
    using assms by (simp add: populate_def Let_def)
  from populateDirect_Inr[OF this refl refl] obtain g' S' Q' where
    run: "populateDirect_rows e g' (incWave ?s1) (solver_nMax ?s1) (result_FF ?s1)
            (max_flat (solver_nMax ?s1) - 1) [0..<length (objects g')]
            (Matrix_new e (2 * (max_flat (solver_nMax ?s1) - 1))
               (2 * (max_flat (solver_nMax ?s1) - 1))) (S ?s1) (Q ?s1) = Inr (S', Q')"
    and s': "s' = ?s1\<lparr>geometry := g', S := S', Q := Q'\<rparr>"
    by blast
  from populateDirect_rows_dims[OF run] s'
  show "rows (S s') = scatterer_size (geometry s)" "cols (S s') = scatterer_size (geometry s)"
    "vsize (Q s') = scatterer_size (geometry s)"
    by simp_all
qed

text \<open>
  Claim C2, in the direct formulation. A solver of degree 1 in the direct
  formulation, over the geometry whose two scatterers have degrees 1 and 2:
  \<^verbatim>\<open>populate\<close> signals no error. It returns a solver whose system has the size
  \<open>6 + 16\<close> of the two scatterers, of which \<^verbatim>\<open>populateDirect\<close> writes the blocks of
  size 6 only. \<^verbatim>\<open>populateDirect\<close> never reads the \<^verbatim>\<open>nMax\<close> of a scatterer.
\<close>

theorem mixed_degrees_direct_builds_system:
  "nMax (objects mixed_geometry ! 0) \<noteq> nMax (objects mixed_geometry ! 1) \<and>
   solverMethod (example_solver 0 mixed_geometry None) \<noteq> O3DSolverIndirect example_env \<and>
   \<not> isl (populate example_env (example_solver 0 mixed_geometry None)) \<and>
   rows (S (projr (populate example_env (example_solver 0 mixed_geometry None)))) = 22 \<and>
   cols (S (projr (populate example_env (example_solver 0 mixed_geometry None)))) = 22 \<and>
   vsize (Q (projr (populate example_env (example_solver 0 mixed_geometry None)))) = 22"
proof -
  have m: "solverMethod (example_solver 0 mixed_geometry None) \<noteq> O3DSolverIndirect example_env"
    by (simp add: example_solver_def example_env_def)
  have size: "scatterer_size (geometry (example_solver 0 mixed_geometry None)) = 22"
    by (simp add: example_solver_def mixed_geometry_def scatterer_size_def max_flat_def
          example_scatterer_def)
  have "length (objects (geometry (example_solver 0 mixed_geometry None))) *
          (2 * (max_flat (solver_nMax (example_solver 0 mixed_geometry None)) - 1)) \<le>
        scatterer_size (geometry (example_solver 0 mixed_geometry None))"
    unfolding size by (simp add: example_solver_def mixed_geometry_def max_flat_def)
  from populate_direct_returns[OF m this]
  obtain s' where run: "populate example_env (example_solver 0 mixed_geometry None) = Inr s'"
    by blast
  from populate_direct_dims[OF m run] size
  have "rows (S s') = 22" "cols (S s') = 22" "vsize (Q s') = 22" by simp_all
  then show ?thesis using m run
    by (simp add: mixed_geometry_def example_scatterer_def)
qed

section \<open>No scatterer\<close>

text \<open>
  Claim C6. For a geometry with no scatterer, and a valid Scalapack context (which
  \<^verbatim>\<open>solve\<close> checks before anything else, whatever the geometry): the matrix and the
  source vectors of the indirect assembler are returned with size zero and no
  error; \<^verbatim>\<open>populate\<close>, in either formulation, returns a solver whose \<^verbatim>\<open>S\<close> and \<^verbatim>\<open>Q\<close>
  have size zero; and \<^verbatim>\<open>solve\<close> on that solver returns scattered and internal
  coefficient vectors of size zero.
\<close>

theorem zero_scatterers:
  assumes "objects (geometry s) = []" and "context_is_valid e"
  shows "(\<exists>M. preconditioned_scattering_matrix e (geometry s) w = Inr M \<and>
               rows M = 0 \<and> cols M = 0) \<and>
         (\<exists>q. source_vector e (geometry s) w = Inr q \<and> vsize q = 0) \<and>
         (\<exists>q. local_source_vector e (geometry s) w c = Inr q \<and> vsize q = 0) \<and>
         (\<exists>s'. populate e s = Inr s' \<and> rows (S s') = 0 \<and> cols (S s') = 0 \<and> vsize (Q s') = 0 \<and>
            (\<exists>X_sca X_int. solve e s' = Inr (X_sca, X_int) \<and>
               vsize X_sca = 0 \<and> vsize X_int = 0))"
proof -
  have psm: "preconditioned_scattering_matrix e (geometry s) w = Inr (Matrix_new e 0 0)" for w
    using assms(1) by (simp add: preconditioned_scattering_matrix_def)
  have sv: "source_vector e (geometry s) w = Inr (Vector_new e 0)" for w
    using assms(1) by (simp add: source_vector_def)
  have lsv: "local_source_vector e (geometry s) w c = Inr (Vector_new e 0)" for w c
    using assms(1) by (simp add: local_source_vector_def)
  have size0: "scatterer_size (geometry s) = 0"
    using assms(1) by (simp add: scatterer_size_def)
  have solved: "\<exists>X_sca X_int. solve e s' = Inr (X_sca, X_int) \<and> vsize X_sca = 0 \<and> vsize X_int = 0"
    if "objects (geometry s') = []" "cols (S s') = 0" for s'
    using that assms(2)
    by (simp add: solve_def solveLinearSystem_def convertIndirect_def solveInternal_def
          Vector_new_def cwise_mul_def Let_def)
  have "\<exists>s'. populate e s = Inr s' \<and> rows (S s') = 0 \<and> cols (S s') = 0 \<and> vsize (Q s') = 0 \<and>
            objects (geometry s') = []"
  proof (cases "solverMethod s = O3DSolverIndirect e")
    case True
    then show ?thesis using psm sv lsv assms(1)
      by (cases "result_FF s")
         (simp_all add: populate_def populateIndirect_def Let_def Matrix_new_def Vector_new_def)
  next
    case False
    then show ?thesis using size0 assms(1)
      by (cases "result_FF s")
         (simp_all add: populate_def populateDirect_def Let_def setSourcesSingle_def)
  qed
  then show ?thesis using psm sv lsv solved
    by (auto simp: Matrix_new_def Vector_new_def)
qed

theorem zero_scatterers_witness:
  "(\<exists>M. preconditioned_scattering_matrix example_env empty_geometry example_wave = Inr M \<and>
        rows M = 0 \<and> cols M = 0) \<and>
   (\<exists>q. source_vector example_env empty_geometry example_wave = Inr q \<and> vsize q = 0) \<and>
   (\<exists>s'. populate example_env (example_solver 0 empty_geometry None) = Inr s' \<and>
        rows (S s') = 0 \<and> cols (S s') = 0 \<and> vsize (Q s') = 0 \<and>
        (\<exists>X_sca X_int. solve example_env s' = Inr (X_sca, X_int) \<and>
           vsize X_sca = 0 \<and> vsize X_int = 0))"
proof -
  have "objects (geometry (example_solver 0 empty_geometry None)) = []"
    by (simp add: example_solver_def empty_geometry_def)
  moreover have "context_is_valid example_env" by (simp add: example_env_def)
  ultimately show ?thesis
    using zero_scatterers[of "example_solver 0 empty_geometry None" example_env example_wave
            example_X]
    by (simp add: example_solver_def)
qed

section \<open>The system that \<^verbatim>\<open>populate\<close> assembles\<close>

lemma vsize_write_at [simp]: "vsize (write_at v i n f) = vsize v"
  by (simp add: write_at_def)

lemma check_nMax_Inr: "check_nMax n objs = Inr u \<Longrightarrow> x \<in> set objs \<Longrightarrow> nMax x = n"
  by (induction objs) (auto split: if_splits)

lemma source_vector_loop_size [simp]:
  "vsize (source_vector_loop e w nM f objs i result) = vsize result"
  by (induction objs arbitrary: i result) (simp_all add: write_at_def)

lemma source_vector_loop_frame:
  "k < i \<Longrightarrow> vcoeff (source_vector_loop e w nM f objs i result) k = vcoeff result k"
  by (induction objs arbitrary: i result) (simp_all add: write_at_def)

lemma source_vector_loop_block:
  assumes "a < 2 * f"
  shows "k < length objs \<Longrightarrow>
         vcoeff (source_vector_loop e w nM f objs i result) (i + k * (2 * f) + a) =
         getIncLocal e w (vR (objs ! k)) nM a"
proof (induction objs arbitrary: i result k)
  case Nil
  then show ?case by simp
next
  case (Cons first rest)
  show ?case
  proof (cases k)
    case 0
    have "i + a < i + 2 * f" using assms by simp
    then show ?thesis using 0 assms
      by (simp add: source_vector_loop_frame write_at_def)
  next
    case (Suc k')
    then have "k' < length rest" using Cons.prems by simp
    from Cons.IH[OF this, of "i + 2 * f"
        "write_at result i (2 * f) (getIncLocal e w (vR first) nM)"]
    show ?thesis using Suc by (simp add: algebra_simps)
  qed
qed

lemma source_vector_Inr:
  assumes "source_vector e g w = Inr q"
    and "nM = nMax (objects g ! 0)" and "f = max_flat nM - 1"
  shows "\<And>x. x \<in> set (objects g) \<Longrightarrow> nMax x = nM"
    and "vsize q = 2 * f * length (objects g)"
    and "\<And>i a. i < length (objects g) \<Longrightarrow> a < 2 * f \<Longrightarrow>
           vcoeff q (i * (2 * f) + a) = getIncLocal e w (vR (objects g ! i)) nM a"
proof -
  show same: "nMax x = nM" if "x \<in> set (objects g)" for x
  proof (cases "objects g")
    case Nil
    then show ?thesis using that by simp
  next
    case (Cons front rest)
    then obtain u where "check_nMax (nMax front) (objects g) = Inr u"
      using assms(1) by (auto simp: source_vector_def split: sum.splits)
    from check_nMax_Inr[OF this that] show ?thesis using Cons assms(2) by simp
  qed
  show "vsize q = 2 * f * length (objects g)"
  proof (cases "objects g")
    case Nil
    then show ?thesis using assms(1) by (auto simp: source_vector_def Vector_new_def)
  next
    case (Cons front rest)
    then have "q = source_vector_range e (objects g) w"
      using assms(1) by (auto simp: source_vector_def split: sum.splits)
    then show ?thesis using Cons assms(2,3)
      by (simp add: source_vector_range_def Let_def Vector_new_def)
  qed
  fix i a assume i: "i < length (objects g)" and a: "a < 2 * f"
  then obtain front rest where Cons: "objects g = front # rest"
    by (cases "objects g") auto
  then have "q = source_vector_range e (objects g) w"
    using assms(1) by (auto simp: source_vector_def split: sum.splits)
  then have q: "q = source_vector_loop e w nM f (objects g) 0 (Vector_new e (2 * f * length (objects g)))"
    using Cons assms(2,3) by (simp add: source_vector_range_def Let_def)
  show "vcoeff q (i * (2 * f) + a) = getIncLocal e w (vR (objects g ! i)) nM a"
    unfolding q using source_vector_loop_block[OF a i, of e w nM 0] by simp
qed

lemma local_source_loop_size [simp]:
  "vsize (local_source_loop e cg w nM f is result) = vsize result"
  by (induction "is" arbitrary: result) (simp_all add: write_at_def)

lemma local_source_loop_frame:
  "(\<And>i. i \<in> set is \<Longrightarrow> \<not> (i * (2 * f) \<le> k \<and> k < i * (2 * f) + 2 * f)) \<Longrightarrow>
   vcoeff (local_source_loop e cg w nM f is result) k = vcoeff result k"
proof (induction "is" arbitrary: result)
  case Nil
  then show ?case by simp
next
  case (Cons i rest)
  have "vcoeff (local_source_loop e cg w nM f (i # rest) result) k =
        vcoeff (write_at result (i * 2 * f) (2 * f) (getSourceLocal e cg i w nM)) k"
    using Cons.IH Cons.prems by simp
  also have "\<dots> = vcoeff result k"
    using Cons.prems[of i] by (auto simp: write_at_def mult.assoc)
  finally show ?case .
qed

lemma local_source_loop_block:
  "distinct is \<Longrightarrow> i \<in> set is \<Longrightarrow> a < 2 * f \<Longrightarrow>
   vcoeff (local_source_loop e cg w nM f is result) (i * (2 * f) + a) = getSourceLocal e cg i w nM a"
proof (induction "is" arbitrary: result)
  case Nil
  then show ?case by simp
next
  case (Cons i0 rest)
  show ?case
  proof (cases "i = i0")
    case True
    have "\<And>i'. i' \<in> set rest \<Longrightarrow>
            \<not> (i' * (2 * f) \<le> i * (2 * f) + a \<and> i * (2 * f) + a < i' * (2 * f) + 2 * f)"
      using segment_index_unique[OF Cons.prems(3)] Cons.prems(1) True by auto
    then have "vcoeff (local_source_loop e cg w nM f (i0 # rest) result) (i * (2 * f) + a) =
          vcoeff (write_at result (i0 * 2 * f) (2 * f) (getSourceLocal e cg i0 w nM))
            (i * (2 * f) + a)"
      using local_source_loop_frame by simp
    then show ?thesis using True Cons.prems(3) by (simp add: write_at_def mult.assoc)
  next
    case False
    then show ?thesis using Cons.IH Cons.prems by simp
  qed
qed

lemma local_source_vector_Inr:
  assumes "local_source_vector e g w c = Inr q"
    and "nM = nMax (objects g ! 0)" and "f = max_flat nM - 1"
  shows "\<And>x. x \<in> set (objects g) \<Longrightarrow> nMax x = nM"
    and "vsize q = 2 * f * length (objects g)"
    and "\<And>i a. i < length (objects g) \<Longrightarrow> a < 2 * f \<Longrightarrow>
           vcoeff q (i * (2 * f) + a) =
           getSourceLocal e (setSourcesSingle e g w (vcoeff c) nM) i w nM a"
proof -
  show same: "nMax x = nM" if "x \<in> set (objects g)" for x
  proof (cases "objects g")
    case Nil
    then show ?thesis using that by simp
  next
    case (Cons front rest)
    then obtain u where "check_nMax (nMax front) (objects g) = Inr u"
      using assms(1) by (auto simp: local_source_vector_def split: sum.splits)
    from check_nMax_Inr[OF this that] show ?thesis using Cons assms(2) by simp
  qed
  let ?cg = "setSourcesSingle e g w (vcoeff c) nM"
  have q: "q = local_source_loop e ?cg w nM f [0..<length (objects g)]
                 (Vector_new e (f * 2 * length (objects g)))" if "objects g \<noteq> []"
  proof -
    from that obtain front rest where Cons: "objects g = front # rest"
      by (cases "objects g") auto
    then show ?thesis using assms
      by (auto simp: local_source_vector_def Let_def split: sum.splits)
  qed
  show "vsize q = 2 * f * length (objects g)"
  proof (cases "objects g = []")
    case True
    then show ?thesis using assms(1) by (auto simp: local_source_vector_def Vector_new_def)
  next
    case False
    show ?thesis unfolding q[OF False] by (simp add: Vector_new_def)
  qed
  fix i a assume i: "i < length (objects g)" and a: "a < 2 * f"
  then have "objects g \<noteq> []" by auto
  from q[OF this] show "vcoeff q (i * (2 * f) + a) = getSourceLocal e ?cg i w nM a"
    using local_source_loop_block[of "[0..<length (objects g)]" i a f e ?cg w nM] i a by simp
qed

lemma psm_Inr:
  assumes "preconditioned_scattering_matrix e g w = Inr M"
    and "nM = nMax (objects g ! 0)" and "f = max_flat nM - 1"
  shows "\<And>x. x \<in> set (objects g) \<Longrightarrow> nMax x = nM"
    and "rows M = 2 * f * length (objects g)" "cols M = 2 * f * length (objects g)"
    and "\<And>i j a b. i < length (objects g) \<Longrightarrow> j < length (objects g) \<Longrightarrow>
           a < 2 * f \<Longrightarrow> b < 2 * f \<Longrightarrow>
           coeff M (i * (2 * f) + a) (j * (2 * f) + b) =
           coeff (indirect_block e (objects g) w nM f
                    (mat_uminus (TLocal e (objects g ! j) (omega w) (bground g))) i j) a b"
proof -
  show same: "nMax x = nM" if "x \<in> set (objects g)" for x
  proof (cases "objects g")
    case Nil
    then show ?thesis using that by simp
  next
    case (Cons front rest)
    then obtain u where "check_nMax (nMax front) (objects g) = Inr u"
      using assms(1) by (auto simp: preconditioned_scattering_matrix_def split: sum.splits)
    from check_nMax_Inr[OF this that] show ?thesis using Cons assms(2) by simp
  qed
  have M: "M = (if objects g = [] then Matrix_new e 0 0
              else preconditioned_scattering_matrix_objects e (objects g) (bground g) w)"
    using psm_geometry[OF same, where e = e and w = w] assms(1) by simp
  show "rows M = 2 * f * length (objects g)" "cols M = 2 * f * length (objects g)"
    using M psm_objects_dims[of "objects g" f e "bground g" w] assms(2,3)
    by (auto simp: Matrix_new_def)
  fix i j a b
  assume "i < length (objects g)" "j < length (objects g)" "a < 2 * f" "b < 2 * f"
  from psm_objects_blocks[OF same assms(3) this] M \<open>i < length (objects g)\<close>
  show "coeff M (i * (2 * f) + a) (j * (2 * f) + b) =
           coeff (indirect_block e (objects g) w nM f
                    (mat_uminus (TLocal e (objects g ! j) (omega w) (bground g))) i j) a b"
    by auto
qed







lemma TLocal_at_dims [simp]:
  "rows (TLocal_at e g om i nM) = 2 * (max_flat nM - 1)"
  "cols (TLocal_at e g om i nM) = 2 * (max_flat nM - 1)"
  by (simp_all add: TLocal_at_def)




lemma populate_indirect_system:
  assumes "solverMethod s = O3DSolverIndirect e" "populate e s = Inr s'"
    and "nM = nMax (objects (geometry s) ! 0)" and "f = max_flat nM - 1"
  shows "\<And>x. x \<in> set (objects (geometry s)) \<Longrightarrow> nMax x = nM"
    and "vsize (Q s') = 2 * f * length (objects (geometry s))"
    and "rows (S s') = 2 * f * length (objects (geometry s))"
    and "cols (S s') = 2 * f * length (objects (geometry s))"
    and "\<And>a i k. result_FF s = Some a \<Longrightarrow> i < length (objects (geometry s)) \<Longrightarrow> k < 2 * f \<Longrightarrow>
           vcoeff (segment (Q s') (i * (2 * f)) (2 * f)) k =
           getSourceLocal e
             (setSourcesSingle e (geometry s) (incWave s) (vcoeff (internal_coef (deref e a))) nM)
             i (incWave s) nM k"
    and "\<And>i k. result_FF s = None \<Longrightarrow> i < length (objects (geometry s)) \<Longrightarrow> k < 2 * f \<Longrightarrow>
           vcoeff (segment (Q s') (i * (2 * f)) (2 * f)) k =
           getIncLocal e (incWave s) (vR (objects (geometry s) ! i)) nM k"
    and "\<And>i j k l. i < length (objects (geometry s)) \<Longrightarrow> j < length (objects (geometry s)) \<Longrightarrow>
           k < 2 * f \<Longrightarrow> l < 2 * f \<Longrightarrow>
           coeff (block (S s') (i * (2 * f)) (j * (2 * f)) (2 * f) (2 * f)) k l =
           (if i = j then coeff (Matrix_Identity (2 * f) (2 * f)) k l
            else coeff (mat_mul
                          (coupling_block e f
                             (mkCoupling e
                                (minus_Spherical e (vR (objects (geometry s) ! i))
                                   (vR (objects (geometry s) ! j)))
                                (waveK (incWave s)) nM))
                          (mat_uminus (TLocal e (objects (geometry s) ! j) (omega (incWave s))
                             (bground (geometry s))))) k l)"
proof -
  have M: "preconditioned_scattering_matrix e (geometry s) (incWave s) = Inr (S s')"
    by (rule populate_indirect(3)[OF assms(1,2)])
  show "nMax x = nM" if "x \<in> set (objects (geometry s))" for x
    by (rule psm_Inr(1)[OF M assms(3,4) that])
  show "rows (S s') = 2 * f * length (objects (geometry s))"
    "cols (S s') = 2 * f * length (objects (geometry s))"
    by (rule psm_Inr(2,3)[OF M assms(3,4)])+
  show "vsize (Q s') = 2 * f * length (objects (geometry s))"
  proof (cases "result_FF s")
    case None
    with populate_indirect(2)[OF assms(1,2)]
    have "source_vector e (geometry s) (incWave s) = Inr (Q s')" by simp
    from source_vector_Inr(2)[OF this assms(3,4)] show ?thesis .
  next
    case (Some a)
    with populate_indirect(2)[OF assms(1,2)]
    have "local_source_vector e (geometry s) (incWave s) (internal_coef (deref e a)) = Inr (Q s')"
      by simp
    from local_source_vector_Inr(2)[OF this assms(3,4)] show ?thesis .
  qed
  show "vcoeff (segment (Q s') (i * (2 * f)) (2 * f)) k =
           getSourceLocal e
             (setSourcesSingle e (geometry s) (incWave s) (vcoeff (internal_coef (deref e a))) nM)
             i (incWave s) nM k"
    if "result_FF s = Some a" "i < length (objects (geometry s))" "k < 2 * f" for a i k
  proof -
    from that(1) populate_indirect(2)[OF assms(1,2)]
    have "local_source_vector e (geometry s) (incWave s) (internal_coef (deref e a)) = Inr (Q s')"
      by simp
    from local_source_vector_Inr(3)[OF this assms(3,4) that(2,3)]
    show ?thesis by (simp add: segment_def)
  qed
  show "vcoeff (segment (Q s') (i * (2 * f)) (2 * f)) k =
           getIncLocal e (incWave s) (vR (objects (geometry s) ! i)) nM k"
    if "result_FF s = None" "i < length (objects (geometry s))" "k < 2 * f" for i k
  proof -
    from that(1) populate_indirect(2)[OF assms(1,2)]
    have "source_vector e (geometry s) (incWave s) = Inr (Q s')" by simp
    from source_vector_Inr(3)[OF this assms(3,4) that(2,3)]
    show ?thesis by (simp add: segment_def)
  qed
  show "coeff (block (S s') (i * (2 * f)) (j * (2 * f)) (2 * f) (2 * f)) k l =
           (if i = j then coeff (Matrix_Identity (2 * f) (2 * f)) k l
            else coeff (mat_mul
                          (coupling_block e f
                             (mkCoupling e
                                (minus_Spherical e (vR (objects (geometry s) ! i))
                                   (vR (objects (geometry s) ! j)))
                                (waveK (incWave s)) nM))
                          (mat_uminus (TLocal e (objects (geometry s) ! j) (omega (incWave s))
                             (bground (geometry s))))) k l)"
    if "i < length (objects (geometry s))" "j < length (objects (geometry s))"
      "k < 2 * f" "l < 2 * f" for i j k l
    using psm_Inr(4)[OF M assms(3,4) that] by (simp add: block_def indirect_block_def)
qed

lemmas varying_defs =
  varying_env_def example_env_def example_solver_def example_geometry_def example_scatterer_def
  example_wave_def example_bground_def max_flat_def scatterer_size_def

section \<open>The second-harmonic setter\<close>



section \<open>Updating the solver\<close>

text \<open>
  Claim C10. \<^verbatim>\<open>update(geometry, excitation, nMax)\<close> returns a solver whenever the
  assembly does not fail (as for claim C9). The solver \<open>s'\<close> it returns holds no
  first-harmonic result, whatever pointer was held before (the outcome is the same
  for every pointer \<open>r\<close> held before), and holds the new geometry, excitation and
  degree; a later \<^verbatim>\<open>SH\<close> with a non-null pointer re-populates. \<^verbatim>\<open>Q\<close> is built from
  the external excitation: in the indirect formulation block \<open>i\<close> of \<^verbatim>\<open>Q\<close> holds the
  incoming field at the centre of scatterer \<open>i\<close>, coefficient by coefficient; in the
  direct formulation block \<open>i\<close> of \<^verbatim>\<open>Q\<close> is the local T-matrix of scatterer \<open>i\<close>
  applied to the incoming field at its centre.
\<close>

theorem update_clears_result_FF:
  fixes e :: env and g :: Geometry and w :: Excitation and n :: nat and s :: Solver
  defines "K \<equiv> length (objects g)" and "nM \<equiv> nMax (objects g ! 0)"
  shows
   "(solverMethod s = O3DSolverIndirect e \<and> (\<forall>x \<in> set (objects g). nMax x = nM) \<longrightarrow>
       (\<exists>s'. update e g w n s = Inr s')) \<and>
    (solverMethod s \<noteq> O3DSolverIndirect e \<and> K * (2 * (max_flat n - 1)) \<le> scatterer_size g \<longrightarrow>
       (\<exists>s'. update e g w n s = Inr s')) \<and>
    (\<forall>s'. update e g w n s = Inr s' \<longrightarrow>
       result_FF s' = None \<and> geometry s' = g \<and> incWave s' = w \<and> solver_nMax s' = n \<and>
       (\<forall>r. update e g w n (s\<lparr>result_FF := r\<rparr>) = Inr s') \<and>
       (\<forall>a. SH e (Some a) s' = populate e (s'\<lparr>result_FF := Some a\<rparr>)) \<and>
       (solverMethod s = O3DSolverIndirect e \<longrightarrow>
          source_vector e g w = Inr (Q s') \<and>
          (\<forall>x \<in> set (objects g). nMax x = nM) \<and>
          vsize (Q s') = 2 * (max_flat nM - 1) * K \<and>
          (\<forall>i < K. \<forall>k < 2 * (max_flat nM - 1).
             vcoeff (segment (Q s') (i * (2 * (max_flat nM - 1))) (2 * (max_flat nM - 1))) k =
             getIncLocal e w (vR (objects g ! i)) nM k)) \<and>
       (solverMethod s \<noteq> O3DSolverIndirect e \<longrightarrow>
          vsize (Q s') = scatterer_size g \<and>
          (\<forall>i < K. \<forall>k < 2 * (max_flat n - 1).
             vcoeff (segment (Q s') (i * (2 * (max_flat n - 1))) (2 * (max_flat n - 1))) k =
             vcoeff (mat_vec (TLocal_at e g (omega w) i n)
                       \<lparr>vsize = 2 * (max_flat n - 1),
                        vcoeff = getIncLocal e w (vR (objects g ! i)) n\<rparr>) k)))"
proof -
  let ?t = "s\<lparr>geometry := g, incWave := w, solver_nMax := n, result_FF := None\<rparr>"
  have upd: "update e g w n s = populate e ?t" by (simp add: update_def)
  have tot_ind: "\<exists>s'. update e g w n s = Inr s'"
    if "solverMethod s = O3DSolverIndirect e" "\<forall>x \<in> set (objects g). nMax x = nM"
  proof -
    have "solverMethod ?t = O3DSolverIndirect e" using that(1) by simp
    moreover have "\<And>x. x \<in> set (objects (geometry ?t)) \<Longrightarrow> nMax x = nM"
      using that(2) by simp
    ultimately have "\<exists>s'. populate e ?t = Inr s'" by (rule populate_indirect_returns)
    then show ?thesis using upd by simp
  qed
  have tot_dir: "\<exists>s'. update e g w n s = Inr s'"
    if "solverMethod s \<noteq> O3DSolverIndirect e" "K * (2 * (max_flat n - 1)) \<le> scatterer_size g"
  proof -
    have "solverMethod ?t \<noteq> O3DSolverIndirect e" using that(1) by simp
    moreover have "length (objects (geometry ?t)) * (2 * (max_flat (solver_nMax ?t) - 1)) \<le>
                   scatterer_size (geometry ?t)"
      using that(2) by (simp add: K_def)
    ultimately have "\<exists>s'. populate e ?t = Inr s'" by (rule populate_direct_returns)
    then show ?thesis using upd by simp
  qed
  have keep: "result_FF s' = None \<and> geometry s' = g \<and> incWave s' = w \<and> solver_nMax s' = n \<and>
       (\<forall>r. update e g w n (s\<lparr>result_FF := r\<rparr>) = Inr s') \<and>
       (\<forall>a. SH e (Some a) s' = populate e (s'\<lparr>result_FF := Some a\<rparr>))"
    if "update e g w n s = Inr s'" for s'
  proof -
    have run: "populate e ?t = Inr s'" using that upd by simp
    have none: "result_FF s' = None" using populate_keeps(1)[OF run] by simp
    have geo: "geometry s' = g"
    proof (cases "solverMethod ?t = O3DSolverIndirect e")
      case True
      from populate_indirect(1)[OF True run] show ?thesis by simp
    next
      case False
      have gt: "g = (case result_FF ?t of
               Some r \<Rightarrow> setSourcesSingle e (geometry ?t) (incWave ?t)
                           (vcoeff (internal_coef (deref e r))) (solver_nMax ?t)
             | None \<Rightarrow> geometry ?t)"
        by simp
      from populate_direct(1)[OF False run gt refl] show ?thesis .
    qed
    have same: "update e g w n (s\<lparr>result_FF := r\<rparr>) = Inr s'" for r
      using run by (simp add: update_def)
    have again: "SH e (Some a) s' = populate e (s'\<lparr>result_FF := Some a\<rparr>)" for a
      using none by (simp add: SH_def)
    show ?thesis using none geo populate_keeps(2,3)[OF run] same again by simp
  qed
  have ind: "source_vector e g w = Inr (Q s') \<and>
          (\<forall>x \<in> set (objects g). nMax x = nM) \<and>
          vsize (Q s') = 2 * (max_flat nM - 1) * K \<and>
          (\<forall>i < K. \<forall>k < 2 * (max_flat nM - 1).
             vcoeff (segment (Q s') (i * (2 * (max_flat nM - 1))) (2 * (max_flat nM - 1))) k =
             getIncLocal e w (vR (objects g ! i)) nM k)"
    if "update e g w n s = Inr s'" "solverMethod s = O3DSolverIndirect e" for s'
  proof -
    have run: "populate e ?t = Inr s'" using that upd by simp
    have m: "solverMethod ?t = O3DSolverIndirect e" using that(2) by simp
    have nm: "nM = nMax (objects (geometry ?t) ! 0)" by (simp add: nM_def)
    note sys = populate_indirect_system[OF m run nm refl]
    have rf: "result_FF ?t = None" by simp
    show ?thesis
      unfolding K_def
      apply (intro conjI allI impI)
      subgoal using populate_indirect(2)[OF m run] by simp
      subgoal using sys(1) by simp
      subgoal using sys(2) by simp
      subgoal for i k using sys(6)[OF rf, of i k] by simp
      done
  qed
  have dir: "vsize (Q s') = scatterer_size g \<and>
          (\<forall>i < K. \<forall>k < 2 * (max_flat n - 1).
             vcoeff (segment (Q s') (i * (2 * (max_flat n - 1))) (2 * (max_flat n - 1))) k =
             vcoeff (mat_vec (TLocal_at e g (omega w) i n)
                       \<lparr>vsize = 2 * (max_flat n - 1),
                        vcoeff = getIncLocal e w (vR (objects g ! i)) n\<rparr>) k)"
    if "update e g w n s = Inr s'" "solverMethod s \<noteq> O3DSolverIndirect e" for s'
  proof -
    have run: "populate e ?t = Inr s'" using that upd by simp
    have m: "solverMethod ?t \<noteq> O3DSolverIndirect e" using that(2) by simp
    have gt: "g = (case result_FF ?t of
               Some r \<Rightarrow> setSourcesSingle e (geometry ?t) (incWave ?t)
                           (vcoeff (internal_coef (deref e r))) (solver_nMax ?t)
             | None \<Rightarrow> geometry ?t)"
      by simp
    have ft: "max_flat n - 1 = max_flat (solver_nMax ?t) - 1" by simp
    show ?thesis
      unfolding K_def
      apply (intro conjI allI impI)
      subgoal using populate_direct_dims(3)[OF m run] by simp
      subgoal for i k using populate_direct(2)[OF m run gt ft, of i k] by simp
      done
  qed
  show ?thesis
    apply (rule conjI)
    subgoal using tot_ind by blast
    apply (rule conjI)
    subgoal using tot_dir by blast
    apply (rule allI, rule impI)
    apply (rule conjI)
    subgoal for s' using keep[of s'] by blast
    apply (rule conjI)
    subgoal for s' using keep[of s'] by blast
    apply (rule conjI)
    subgoal for s' using keep[of s'] by blast
    apply (rule conjI)
    subgoal for s' using keep[of s'] by blast
    apply (rule conjI)
    subgoal for s' using keep[of s'] by blast
    apply (rule conjI)
    subgoal for s' using keep[of s'] by blast
    apply (rule conjI)
    subgoal for s' by (rule impI) (rule ind)
    subgoal for s' by (rule impI) (rule dir)
    done
qed

text \<open>
  Both formulations, from a solver that held the pointer 7: the incoming field at
  scatterer 1 is \<open>4 \<cdot> (k + 1)\<close>, so the indirect \<^verbatim>\<open>Q\<close> holds 12 at coefficient 2 of
  block 1 and the direct \<^verbatim>\<open>Q\<close> holds \<open>3 \<cdot> 12\<close>.
\<close>

theorem update_clears_result_FF_witness:
  "\<not> isl (update varying_env example_geometry example_wave 1
            (example_solver 1 empty_geometry (Some 7))) \<and>
   result_FF (projr (update varying_env example_geometry example_wave 1
                       (example_solver 1 empty_geometry (Some 7)))) = None \<and>
   vsize (Q (projr (update varying_env example_geometry example_wave 1
                      (example_solver 1 empty_geometry (Some 7))))) = 12 \<and>
   vcoeff (segment (Q (projr (update varying_env example_geometry example_wave 1
                                (example_solver 1 empty_geometry (Some 7))))) 6 6) 2 = 12 \<and>
   \<not> isl (update varying_env example_geometry example_wave 1
            (example_solver 0 empty_geometry (Some 7))) \<and>
   result_FF (projr (update varying_env example_geometry example_wave 1
                       (example_solver 0 empty_geometry (Some 7)))) = None \<and>
   vcoeff (segment (Q (projr (update varying_env example_geometry example_wave 1
                                (example_solver 0 empty_geometry (Some 7))))) 6 6) 2 = 36"
proof -
  let ?si = "example_solver 1 empty_geometry (Some 7)"
  let ?sd = "example_solver 0 empty_geometry (Some 7)"
  have mi: "solverMethod ?si = O3DSolverIndirect varying_env" by (simp add: varying_defs)
  note Ui = update_clears_result_FF[where e = varying_env and g = example_geometry
      and w = example_wave and n = 1 and s = ?si]
  have "\<exists>s'. update varying_env example_geometry example_wave 1 ?si = Inr s'"
    using Ui[THEN conjunct1] mi by (simp add: varying_defs)
  then obtain si where ri: "update varying_env example_geometry example_wave 1 ?si = Inr si"
    by blast
  note Ki = Ui[THEN conjunct2, THEN conjunct2, THEN spec, THEN mp, OF ri]
  have rfi: "result_FF si = None" using Ki[THEN conjunct1] .
  note Xi = Ki[THEN conjunct2, THEN conjunct2, THEN conjunct2, THEN conjunct2, THEN conjunct2,
      THEN conjunct2, THEN conjunct1, THEN mp, OF mi]
  have qsi: "vsize (Q si) = 12"
    using Xi[THEN conjunct2, THEN conjunct2, THEN conjunct1] by (simp add: varying_defs)
  have qi: "vcoeff (segment (Q si) 6 6) 2 = 12"
    using Xi[THEN conjunct2, THEN conjunct2, THEN conjunct2, rule_format, of 1 2]
    by (simp add: varying_defs)
  have md: "solverMethod ?sd \<noteq> O3DSolverIndirect varying_env" by (simp add: varying_defs)
  note Ud = update_clears_result_FF[where e = varying_env and g = example_geometry
      and w = example_wave and n = 1 and s = ?sd]
  have "\<exists>s'. update varying_env example_geometry example_wave 1 ?sd = Inr s'"
    using Ud[THEN conjunct2, THEN conjunct1] md by (simp add: varying_defs)
  then obtain sd where rd: "update varying_env example_geometry example_wave 1 ?sd = Inr sd"
    by blast
  note Kd = Ud[THEN conjunct2, THEN conjunct2, THEN spec, THEN mp, OF rd]
  have rfd: "result_FF sd = None" using Kd[THEN conjunct1] .
  note Yd = Kd[THEN conjunct2, THEN conjunct2, THEN conjunct2, THEN conjunct2, THEN conjunct2,
      THEN conjunct2, THEN conjunct2, THEN mp, OF md]
  have qd: "vcoeff (segment (Q sd) 6 6) 2 = 36"
    using Yd[THEN conjunct2, rule_format, of 1 2]
    by (simp add: varying_defs mat_vec_def TLocal_at_def upt_rec)
  show ?thesis using ri rfi qsi qi rd rfd qd by simp
qed

end
